theory Spec2Isabelle
  imports Main "HOL-Library.Sublist" "HOL-Library.AList" "HOL-Library.Multiset"
begin

section \<open>JavaScript values and strings\<close>

text \<open>
  Strings are ASCII strings, written as lists of characters. On them \<open>toLowerCase\<close> and
  \<open>toUpperCase\<close> convert the twenty-six letters, as JavaScript does, and the character
  classes of the program's regular expressions are the ASCII classes. JavaScript also
  converts letters outside ASCII and its class \<open>\s\<close> also holds spaces outside ASCII (U+00A0,
  U+2028, U+FEFF and others): a string with such a character is outside the model, and what
  is proved of \<open>toLowerCase\<close>, \<open>toUpperCase\<close> and \<open>isSpace\<close> is proved of ASCII strings.
\<close>

definition upperChars :: string where
  "upperChars = ''ABCDEFGHIJKLMNOPQRSTUVWXYZ''"

definition lowerChars :: string where
  "lowerChars = ''abcdefghijklmnopqrstuvwxyz''"

definition digitChars :: string where
  "digitChars = ''0123456789''"

definition isUpper :: "char \<Rightarrow> bool" where
  "isUpper c = (c \<in> set upperChars)"

definition isLower :: "char \<Rightarrow> bool" where
  "isLower c = (c \<in> set lowerChars)"

definition isDigit :: "char \<Rightarrow> bool" where
  "isDigit c = (c \<in> set digitChars)"

definition isLetter :: "char \<Rightarrow> bool" where
  "isLetter c = (isLower c \<or> isUpper c)"

definition isAlnum :: "char \<Rightarrow> bool" where
  "isAlnum c = (isLetter c \<or> isDigit c)"

definition toLowerChar :: "char \<Rightarrow> char" where
  "toLowerChar c = (case map_of (zip upperChars lowerChars) c of Some d \<Rightarrow> d | None \<Rightarrow> c)"

definition toUpperChar :: "char \<Rightarrow> char" where
  "toUpperChar c = (case map_of (zip lowerChars upperChars) c of Some d \<Rightarrow> d | None \<Rightarrow> c)"

definition toLowerCase :: "string \<Rightarrow> string" where
  "toLowerCase s = map toLowerChar s"

definition toUpperCase :: "string \<Rightarrow> string" where
  "toUpperCase s = map toUpperChar s"

text \<open>\<open>s.charAt(0).toUpperCase() + s.slice(1)\<close>; the empty string stays empty.\<close>

definition capitalize :: "string \<Rightarrow> string" where
  "capitalize s = (case s of [] \<Rightarrow> [] | c # cs \<Rightarrow> toUpperChar c # cs)"

text \<open>\<open>s.split(sep)\<close> for a one-character separator: empty pieces are kept.\<close>

fun splitOn :: "char \<Rightarrow> string \<Rightarrow> string list" where
  "splitOn sep [] = [[]]"
| "splitOn sep (c # cs) =
     (if c = sep then [] # splitOn sep cs
      else (case splitOn sep cs of [] \<Rightarrow> [[c]] | w # ws \<Rightarrow> (c # w) # ws))"

text \<open>
  Values of type \<open>unknown\<close>: the JSON values and \<open>undefined\<close>. Numbers are integers here.
\<close>

datatype jsval =
    JUndefined
  | JNull
  | JBool bool
  | JNum int
  | JStr string
  | JArr "jsval list"
  | JObj "(string \<times> jsval) list"

text \<open>
  What is thrown: an \<open>Error\<close> or a \<open>TypeError\<close> with its message, or a value that is not an
  instance of \<open>Error\<close>.
\<close>

datatype error = Error string | TypeError string | NonError

fun truthy :: "jsval \<Rightarrow> bool" where
  "truthy JUndefined = False"
| "truthy JNull = False"
| "truthy (JBool b) = b"
| "truthy (JNum n) = (n \<noteq> 0)"
| "truthy (JStr s) = (s \<noteq> [])"
| "truthy (JArr xs) = True"
| "truthy (JObj kvs) = True"

text \<open>\<open>obj[key]\<close> on a record.\<close>

definition getProp :: "(string \<times> jsval) list \<Rightarrow> string \<Rightarrow> jsval" where
  "getProp obj key = (case map_of obj key of None \<Rightarrow> JUndefined | Some v \<Rightarrow> v)"

text \<open>\<open>s.includes(q)\<close> on strings: \<open>q\<close> occurs in \<open>s\<close> as a substring.\<close>

fun includesStr :: "string \<Rightarrow> string \<Rightarrow> bool" where
  "includesStr [] q = (q = [])"
| "includesStr (c # cs) q = (prefix q (c # cs) \<or> includesStr cs q)"

text \<open>\<open>parts.join(sep)\<close>\<close>

fun join :: "string \<Rightarrow> string list \<Rightarrow> string" where
  "join sep [] = []"
| "join sep [x] = x"
| "join sep (x # y # ys) = x @ sep @ join sep (y # ys)"

text \<open>The decimal digits of an array index, as \<open>Object.entries\<close> names the entries of an array.\<close>

fun showNat :: "nat \<Rightarrow> string" where
  "showNat n =
     (if n < 10 then [digitChars ! n] else showNat (n div 10) @ [digitChars ! (n mod 10)])"

declare showNat.simps [simp del]

text \<open>
  \<open>Object.entries(v)\<close> for a value that is not \<open>undefined\<close> or \<open>null\<close>: the entries of an
  object, the indexed elements of an array, the indexed characters of a string, and nothing
  for a number or a boolean.
\<close>

fun objectEntries :: "jsval \<Rightarrow> (string \<times> jsval) list" where
  "objectEntries (JObj kvs) = kvs"
| "objectEntries (JArr xs) = map (\<lambda>(i, x). (showNat i, x)) (enumerate 0 xs)"
| "objectEntries (JStr s) = map (\<lambda>(i, c). (showNat i, JStr [c])) (enumerate 0 s)"
| "objectEntries v = []"

section \<open>Parsed endpoints (types/index.ts)\<close>

record ParameterInfo =
  p_name :: string
  p_required :: bool
  p_description :: "string option"
  p_type :: string
  p_format :: "string option"
  p_enum :: "jsval list option"
  p_default :: jsval

text \<open>
  A \<open>Record<string, unknown>\<close> is the list of its own entries in the order
  \<open>Object.entries\<close> gives them; the place JavaScript gives to integer-like keys in the
  enumeration is not modelled.
\<close>

type_synonym jsobject = "(string \<times> jsval) list"

text \<open>
  The members a plain object inherits from \<open>Object.prototype\<close>. They matter where the program
  uses a plain object as a dictionary under keys taken from the document: the records
  \<open>properties\<close> of \<open>generateInputSchema\<close> and \<open>byMethod\<close>, \<open>byTag\<close> of \<open>getToolsSummary\<close>.
  Elsewhere (\<open>getProp\<close>) a read is a read of the own entries, the keys read there being
  \<open>type\<close>, \<open>properties\<close>, \<open>required\<close>, \<open>body\<close> and the names of the parameters of a call,
  which are taken to be none of the inherited names.
\<close>

definition objectPrototypeKeys :: "string list" where
  "objectPrototypeKeys =
     [''constructor'', ''__defineGetter__'', ''__defineSetter__'', ''hasOwnProperty'',
      ''__lookupGetter__'', ''__lookupSetter__'', ''isPrototypeOf'', ''propertyIsEnumerable'',
      ''toString'', ''valueOf'', ''__proto__'', ''toLocaleString'']"

text \<open>
  \<open>obj[key] = value\<close> on a plain object. Under the key \<open>__proto__\<close> the assignment calls
  the setter inherited from \<open>Object.prototype\<close>: it replaces the prototype when the value is
  an object or \<open>null\<close>, does nothing otherwise, and in neither case creates an entry. Under
  any other key the entry is replaced in place or appended.
\<close>

definition setProp :: "string \<Rightarrow> 'v \<Rightarrow> (string \<times> 'v) list \<Rightarrow> (string \<times> 'v) list" where
  "setProp key v obj = (if key = ''__proto__'' then obj else AList.update key v obj)"

record RequestBodyInfo =
  rb_required :: bool
  rb_description :: "string option"
  rb_contentType :: string
  rb_schema :: jsobject

record ResponseInfo =
  rs_statusCode :: string
  rs_description :: "string option"
  rs_contentType :: "string option"
  rs_schema :: jsval

record ParsedEndpoint =
  ep_operationId :: string
  ep_method :: string
  ep_path :: string
  ep_summary :: "string option"
  ep_description :: "string option"
  ep_pathParams :: "ParameterInfo list"
  ep_queryParams :: "ParameterInfo list"
  ep_headerParams :: "ParameterInfo list"
  ep_requestBody :: "RequestBodyInfo option"
  ep_responses :: "ResponseInfo list"
  ep_tags :: "string list"
  ep_security :: "string list"

record InputSchema =
  is_type :: string
  is_properties :: jsobject
  is_required :: "string list"

record GeneratedTool =
  t_name :: string
  t_description :: string
  t_inputSchema :: InputSchema
  t_endpoint :: ParsedEndpoint

section \<open>Operation identifiers (parser/swagger.ts)\<close>

text \<open>
  \<open>path.replace(/\{([^}]+)\}/g, (_, param) => param.charAt(0).toUpperCase() + param.slice(1))\<close>:
  scanning from the left, an opening brace followed by at least one character other than a
  closing brace and then a closing brace is replaced by the capitalised text between the
  braces; the scan goes on behind the closing brace.
\<close>

function replaceParams :: "string \<Rightarrow> string" where
  "replaceParams [] = []"
| "replaceParams (c # cs) =
     (let param = takeWhile (\<lambda>d. d \<noteq> CHR ''}'') cs;
          rest = dropWhile (\<lambda>d. d \<noteq> CHR ''}'') cs
      in if c = CHR ''{'' \<and> param \<noteq> [] \<and> rest \<noteq> []
         then capitalize param @ replaceParams (tl rest)
         else c # replaceParams cs)"
  by pat_completeness auto
termination
proof (relation "measure length")
  show "wf (measure length)" by simp
next
  fix c :: char and cs x xa :: string
  assume "xa = dropWhile (\<lambda>d. d \<noteq> CHR ''}'') cs"
  moreover have "length (dropWhile (\<lambda>d. d \<noteq> CHR ''}'') cs) \<le> length cs"
    by (rule length_dropWhile_le)
  ultimately have "length (tl xa) \<le> length cs"
    by simp
  then show "(tl xa, c # cs) \<in> measure length" by simp
next
  fix c :: char and cs x xa :: string
  show "(cs, c # cs) \<in> measure length" by simp
qed

text \<open>\<open>.replace(/[^a-zA-Z0-9]/g, ' ')\<close>\<close>

definition blankNonAlnum :: "string \<Rightarrow> string" where
  "blankNonAlnum s = map (\<lambda>c. if isAlnum c then c else CHR '' '') s"

text \<open>
  \<open>.map((word, i) => (i === 0 ? word.toLowerCase()
       : word.charAt(0).toUpperCase() + word.slice(1).toLowerCase()))\<close>
\<close>

definition camelWord :: "nat \<times> string \<Rightarrow> string" where
  "camelWord iw =
     (case iw of (i, word) \<Rightarrow>
        if i = 0 then toLowerCase word
        else (case word of [] \<Rightarrow> [] | c # cs \<Rightarrow> toUpperChar c # toLowerCase cs))"

definition cleanPath :: "string \<Rightarrow> string" where
  "cleanPath path =
     concat (map camelWord
       (enumerate 0 (filter (\<lambda>w. w \<noteq> []) (splitOn (CHR '' '') (blankNonAlnum (replaceParams path))))))"

definition generateOperationId :: "string \<Rightarrow> string \<Rightarrow> string" where
  "generateOperationId method path = toLowerCase method @ capitalize (cleanPath path)"

section \<open>Tool names (generator/mcp-tools.ts)\<close>

text \<open>
  \<open>.replace(/([a-z])([A-Z])/g, '$1_$2')\<close>: a lowercase letter directly followed by an
  uppercase letter gets an underscore between the two; the scan goes on behind the match.
\<close>

fun insertUnderscores :: "string \<Rightarrow> string" where
  "insertUnderscores (a # b # rest) =
     (if isLower a \<and> isUpper b then a # CHR ''_'' # b # insertUnderscores rest
      else a # insertUnderscores (b # rest))"
| "insertUnderscores s = s"

text \<open>\<open>.replace(/[^a-zA-Z0-9_]/g, '_')\<close>\<close>

definition sanitize :: "string \<Rightarrow> string" where
  "sanitize s = map (\<lambda>c. if isAlnum c \<or> c = CHR ''_'' then c else CHR ''_'') s"

definition generateToolName :: "ParsedEndpoint \<Rightarrow> string" where
  "generateToolName endpoint = toLowerCase (sanitize (insertUnderscores (ep_operationId endpoint)))"

text \<open>The pattern \<open>^[a-z][a-z0-9_]*$\<close> of the tool-name property.\<close>

definition matchesToolNamePattern :: "string \<Rightarrow> bool" where
  "matchesToolNamePattern s =
     (case s of [] \<Rightarrow> False
      | c # cs \<Rightarrow> isLower c \<and> list_all (\<lambda>d. isLower d \<or> isDigit d \<or> d = CHR ''_'') cs)"

section \<open>Tool descriptions and input schemas (generator/mcp-tools.ts)\<close>

definition optStr :: "string option \<Rightarrow> jsval" where
  "optStr x = (case x of None \<Rightarrow> JUndefined | Some s \<Rightarrow> JStr s)"

text \<open>A string or \<open>undefined\<close> in a condition: true for a non-empty string only.\<close>

definition truthyStr :: "string option \<Rightarrow> bool" where
  "truthyStr x = (case x of None \<Rightarrow> False | Some s \<Rightarrow> s \<noteq> [])"

definition paramToJsonSchema :: "ParameterInfo \<Rightarrow> jsobject" where
  "paramToJsonSchema param =
     (let schema = [(''type'', JStr (p_type param)), (''description'', optStr (p_description param))];
          schema = (if truthyStr (p_format param)
                    then AList.update ''format'' (optStr (p_format param)) schema else schema);
          schema = (case p_enum param of
                      None \<Rightarrow> schema
                    | Some e \<Rightarrow> if length e > 0
                               then AList.update ''enum'' (JArr e) schema else schema);
          schema = (if p_default param \<noteq> JUndefined
                    then AList.update ''default'' (p_default param) schema else schema)
      in schema)"

definition generateToolDescription :: "ParsedEndpoint \<Rightarrow> string" where
  "generateToolDescription endpoint =
     (let parts = (if truthyStr (ep_summary endpoint) then [the (ep_summary endpoint)]
                   else [toUpperCase (ep_method endpoint) @ '' '' @ ep_path endpoint]);
          parts = (if truthyStr (ep_description endpoint)
                      \<and> ep_description endpoint \<noteq> ep_summary endpoint
                   then parts @ [the (ep_description endpoint)] else parts);
          parts = (if length (ep_tags endpoint) > 0
                   then parts @ [''Tags: '' @ join '', '' (ep_tags endpoint)] else parts)
      in join [CHR 0x0A, CHR 0x0A] parts)"

text \<open>
  The two parameter loops of \<open>generateInputSchema\<close>: each parameter sets its property
  (\<open>properties[param.name] = ...\<close>) and, when required, pushes its name.
\<close>

fun addParams :: "ParameterInfo list \<Rightarrow> jsobject \<times> string list \<Rightarrow> jsobject \<times> string list" where
  "addParams [] st = st"
| "addParams (param # ps) (properties, required) =
     addParams ps
       (setProp (p_name param) (JObj (paramToJsonSchema param)) properties,
        if p_required param then required @ [p_name param] else required)"

text \<open>
  \<open>bodyRequired.includes(propName)\<close> where \<open>bodyRequired = bodySchema.required || []\<close>: the
  membership test of an array, the substring test of a (non-empty) string; any other truthy
  value has no \<open>includes\<close> and the call throws.
\<close>

definition bodyRequiredIncludes :: "jsval \<Rightarrow> string \<Rightarrow> error + bool" where
  "bodyRequiredIncludes req propName =
     (if \<not> truthy req then Inr False
      else (case req of
              JArr xs \<Rightarrow> Inr (JStr propName \<in> set xs)
            | JStr s \<Rightarrow> Inr (includesStr s propName)
            | _ \<Rightarrow> Inl (TypeError ''bodyRequired.includes is not a function'')))"

text \<open>
  The loop over \<open>Object.entries(bodyProps)\<close>: \<open>properties[propName] = propSchema\<close>, and the
  name is pushed when it is listed and the body is required.
\<close>

fun addBodyProps ::
  "(string \<times> jsval) list \<Rightarrow> jsval \<Rightarrow> bool \<Rightarrow> jsobject \<times> string list
     \<Rightarrow> error + (jsobject \<times> string list)" where
  "addBodyProps [] req bodyIsRequired st = Inr st"
| "addBodyProps ((propName, propSchema) # es) req bodyIsRequired (properties, required) =
     (case bodyRequiredIncludes req propName of
        Inl e \<Rightarrow> Inl e
      | Inr listed \<Rightarrow>
          addBodyProps es req bodyIsRequired
            (setProp propName propSchema properties,
             if listed \<and> bodyIsRequired then required @ [propName] else required))"

definition addRequestBody ::
  "RequestBodyInfo option \<Rightarrow> jsobject \<times> string list \<Rightarrow> error + (jsobject \<times> string list)" where
  "addRequestBody rbo st =
     (case rbo of
        None \<Rightarrow> Inr st
      | Some rb \<Rightarrow>
          (let bodySchema = rb_schema rb in
           if getProp bodySchema ''type'' = JStr ''object'' \<and> truthy (getProp bodySchema ''properties'')
           then addBodyProps (objectEntries (getProp bodySchema ''properties''))
                  (getProp bodySchema ''required'') (rb_required rb) st
           else (case st of (properties, required) \<Rightarrow>
                   Inr (AList.update ''body''
                          (JObj (AList.update ''description''
                                   (JStr (if truthyStr (rb_description rb)
                                          then the (rb_description rb) else ''Request body''))
                                   bodySchema))
                          properties,
                        if rb_required rb then required @ [''body''] else required))))"

definition generateInputSchema :: "ParsedEndpoint \<Rightarrow> error + InputSchema" where
  "generateInputSchema endpoint =
     (case addRequestBody (ep_requestBody endpoint)
             (addParams (ep_queryParams endpoint) (addParams (ep_pathParams endpoint) ([], []))) of
        Inl e \<Rightarrow> Inl e
      | Inr (properties, required) \<Rightarrow>
          Inr \<lparr>is_type = ''object'', is_properties = properties, is_required = required\<rparr>)"

definition endpointToTool :: "ParsedEndpoint \<Rightarrow> error + GeneratedTool" where
  "endpointToTool endpoint =
     (case generateInputSchema endpoint of
        Inl e \<Rightarrow> Inl e
      | Inr schema \<Rightarrow>
          Inr \<lparr>t_name = generateToolName endpoint,
               t_description = generateToolDescription endpoint,
               t_inputSchema = schema,
               t_endpoint = endpoint\<rparr>)"

text \<open>\<open>spec.endpoints.map(endpointToTool)\<close>: the first throw ends the map.\<close>

fun generateTools :: "ParsedEndpoint list \<Rightarrow> error + GeneratedTool list" where
  "generateTools [] = Inr []"
| "generateTools (endpoint # es) =
     (case endpointToTool endpoint of
        Inl e \<Rightarrow> Inl e
      | Inr tool \<Rightarrow> (case generateTools es of Inl e \<Rightarrow> Inl e | Inr tools \<Rightarrow> Inr (tool # tools)))"

section \<open>Grouping and summary (generator/mcp-tools.ts)\<close>

text \<open>
  \<open>groupToolsByTag\<close> fills a \<open>Map\<close>, whose keys are free of the prototype;
  \<open>getToolsSummary\<close> fills two plain objects. Both are lists of entries in insertion order.
\<close>

fun addToGroups ::
  "GeneratedTool \<Rightarrow> string list \<Rightarrow> (string \<times> GeneratedTool list) list
     \<Rightarrow> (string \<times> GeneratedTool list) list" where
  "addToGroups tool [] groups = groups"
| "addToGroups tool (tag # tags) groups =
     addToGroups tool tags
       (AList.update tag
          ((case map_of groups tag of None \<Rightarrow> [] | Some existing \<Rightarrow> existing) @ [tool]) groups)"

fun groupToolsLoop ::
  "GeneratedTool list \<Rightarrow> (string \<times> GeneratedTool list) list
     \<Rightarrow> (string \<times> GeneratedTool list) list" where
  "groupToolsLoop [] groups = groups"
| "groupToolsLoop (tool # tools) groups =
     groupToolsLoop tools
       (addToGroups tool
          (if length (ep_tags (t_endpoint tool)) > 0 then ep_tags (t_endpoint tool)
           else [''default''])
          groups)"

definition groupToolsByTag :: "GeneratedTool list \<Rightarrow> (string \<times> GeneratedTool list) list" where
  "groupToolsByTag tools = groupToolsLoop tools []"

text \<open>
  A value of a counting record: a number, or the text that \<open>+ 1\<close> makes of a value that is
  not a number.
\<close>

datatype countValue = Count nat | Text string

text \<open>
  \<open>String(Object.prototype[key])\<close> for an inherited member: the source text of a built-in
  function as Node prints it (\<open>constructor\<close> is the function \<open>Object\<close>), and
  \<open>[object Object]\<close> for \<open>__proto__\<close>, which reads as \<open>Object.prototype\<close> itself.
\<close>

definition inheritedText :: "string \<Rightarrow> string" where
  "inheritedText key =
     (if key = ''__proto__'' then ''[object Object]''
      else if key = ''constructor'' then ''function Object() { [native code] }''
      else ''function '' @ key @ ''() { [native code] }'')"

text \<open>
  \<open>counts[key] = (counts[key] || 0) + 1\<close> on a plain object. The read finds the own entry
  or else the inherited member, a function or an object and so truthy, to which \<open>+ 1\<close>
  appends the character \<open>1\<close>; only a key that is neither reads as \<open>undefined\<close> and starts at
  one. The write is the assignment of a plain object.
\<close>

definition increment :: "string \<Rightarrow> (string \<times> countValue) list \<Rightarrow> (string \<times> countValue) list" where
  "increment key counts =
     (let current = (case map_of counts key of
                       Some v \<Rightarrow> Some v
                     | None \<Rightarrow> if key \<in> set objectPrototypeKeys
                               then Some (Text (inheritedText key)) else None)
      in setProp key
           (case current of
              None \<Rightarrow> Count 1
            | Some (Count n) \<Rightarrow> Count (n + 1)
            | Some (Text s) \<Rightarrow> if s = [] then Count 1 else Text (s @ ''1''))
           counts)"

fun countTags ::
  "string list \<Rightarrow> (string \<times> countValue) list \<Rightarrow> (string \<times> countValue) list" where
  "countTags [] byTag = byTag"
| "countTags (tag # tags) byTag = countTags tags (increment tag byTag)"

record ToolsSummary =
  sm_total :: nat
  sm_byMethod :: "(string \<times> countValue) list"
  sm_byTag :: "(string \<times> countValue) list"

fun summaryLoop ::
  "GeneratedTool list \<Rightarrow> (string \<times> countValue) list \<times> (string \<times> countValue) list
     \<Rightarrow> (string \<times> countValue) list \<times> (string \<times> countValue) list" where
  "summaryLoop [] st = st"
| "summaryLoop (tool # tools) (byMethod, byTag) =
     summaryLoop tools
       (increment (toUpperCase (ep_method (t_endpoint tool))) byMethod,
        countTags (ep_tags (t_endpoint tool)) byTag)"

definition getToolsSummary :: "GeneratedTool list \<Rightarrow> ToolsSummary" where
  "getToolsSummary tools =
     (case summaryLoop tools ([], []) of
        (byMethod, byTag) \<Rightarrow>
          \<lparr>sm_total = length tools, sm_byMethod = byMethod, sm_byTag = byTag\<rparr>)"

section \<open>Search ranking (server/search-mode.ts)\<close>

record SearchOptions =
  so_tags :: "string list option"
  so_methods :: "string list option"
  so_limit :: "int option"

text \<open>\<open>options?.field\<close>\<close>

definition optField :: "('a \<Rightarrow> 'b option) \<Rightarrow> 'a option \<Rightarrow> 'b option" where
  "optField f options = (case options of None \<Rightarrow> None | Some opts \<Rightarrow> f opts)"

text \<open>The class \<open>\s\<close> of a regular expression, on ASCII: tab, the line ends and the space.\<close>

definition isSpace :: "char \<Rightarrow> bool" where
  "isSpace c = (c \<in> set [CHR 0x09, CHR 0x0A, CHR 0x0B, CHR 0x0C, CHR 0x0D, CHR 0x20])"

text \<open>
  \<open>s.split(/\s+/)\<close>: every maximal run of white space separates two pieces; a run at the
  start or at the end of the string leaves an empty piece there, and the empty string splits
  into one empty piece.
\<close>

fun splitWhitespace :: "string \<Rightarrow> string list" where
  "splitWhitespace [] = [[]]"
| "splitWhitespace (c # cs) =
     (if isSpace c
      then (if cs \<noteq> [] \<and> isSpace (hd cs) then splitWhitespace cs else [] # splitWhitespace cs)
      else (case splitWhitespace cs of [] \<Rightarrow> [[c]] | w # ws \<Rightarrow> (c # w) # ws))"

text \<open>\<open>xs.slice(0, limit)\<close>: a negative limit counts from the end.\<close>

definition sliceTo :: "int \<Rightarrow> 'a list \<Rightarrow> 'a list" where
  "sliceTo limit xs =
     (if limit \<ge> 0 then take (nat limit) xs else take (length xs - nat (- limit)) xs)"

text \<open>
  \<open>xs.sort(cmp)\<close> is a stable sort. It is modelled as insertion sort: an element goes in
  front of the first element of the sorted rest that the comparator does not put before it.
\<close>

fun insertSorted :: "('a \<Rightarrow> 'a \<Rightarrow> int) \<Rightarrow> 'a \<Rightarrow> 'a list \<Rightarrow> 'a list" where
  "insertSorted cmp x [] = [x]"
| "insertSorted cmp x (y # ys) =
     (if cmp x y \<le> 0 then x # y # ys else y # insertSorted cmp x ys)"

definition sortBy :: "('a \<Rightarrow> 'a \<Rightarrow> int) \<Rightarrow> 'a list \<Rightarrow> 'a list" where
  "sortBy cmp xs = foldr (insertSorted cmp) xs []"

definition searchFields :: "GeneratedTool \<Rightarrow> string list" where
  "searchFields tool =
     map toLowerCase
       ([t_name tool,
         t_description tool,
         ep_path (t_endpoint tool),
         (if truthyStr (ep_summary (t_endpoint tool)) then the (ep_summary (t_endpoint tool)) else []),
         ep_operationId (t_endpoint tool)]
        @ ep_tags (t_endpoint tool))"

text \<open>The inner loop over the words of the query, and the loop over the fields.\<close>

fun scoreWords :: "string \<Rightarrow> string list \<Rightarrow> int \<Rightarrow> int" where
  "scoreWords field [] score = score"
| "scoreWords field (word # ws) score =
     scoreWords field ws (if includesStr field word then score + 5 else score)"

fun scoreFields :: "string \<Rightarrow> string list \<Rightarrow> int \<Rightarrow> int" where
  "scoreFields queryLower [] score = score"
| "scoreFields queryLower (field # fs) score =
     scoreFields queryLower fs
       (scoreWords field (splitWhitespace queryLower)
          (if includesStr field queryLower then score + 10 else score))"

definition scoreTool :: "string \<Rightarrow> GeneratedTool \<Rightarrow> GeneratedTool \<times> int" where
  "scoreTool queryLower tool = (tool, scoreFields queryLower (searchFields tool) 0)"

definition filterByTags :: "string list option \<Rightarrow> GeneratedTool list \<Rightarrow> GeneratedTool list" where
  "filterByTags tags tools =
     (case tags of
        None \<Rightarrow> tools
      | Some ts \<Rightarrow>
          if length ts > 0
          then (let tagsLower = map toLowerCase ts
                in filter (\<lambda>tool. list_ex (\<lambda>tag. toLowerCase tag \<in> set tagsLower)
                                      (ep_tags (t_endpoint tool))) tools)
          else tools)"

definition filterByMethods :: "string list option \<Rightarrow> GeneratedTool list \<Rightarrow> GeneratedTool list" where
  "filterByMethods methods tools =
     (case methods of
        None \<Rightarrow> tools
      | Some ms \<Rightarrow>
          if length ms > 0
          then (let methodsLower = map toLowerCase ms
                in filter (\<lambda>tool. toLowerCase (ep_method (t_endpoint tool)) \<in> set methodsLower) tools)
          else tools)"

text \<open>\<open>options?.limit || 10\<close>\<close>

definition effectiveLimit :: "SearchOptions option \<Rightarrow> int" where
  "effectiveLimit options =
     (case optField so_limit options of None \<Rightarrow> 10 | Some n \<Rightarrow> if n = 0 then 10 else n)"

definition searchEndpoints ::
  "GeneratedTool list \<Rightarrow> string \<Rightarrow> SearchOptions option \<Rightarrow> GeneratedTool list" where
  "searchEndpoints tools query options =
     (let queryLower = toLowerCase query;
          limit = effectiveLimit options;
          filtered = filterByTags (optField so_tags options) tools;
          filtered = filterByMethods (optField so_methods options) filtered;
          scored = map (scoreTool queryLower) filtered
      in map fst
           (sliceTo limit
              (sortBy (\<lambda>a b. snd b - snd a) (filter (\<lambda>s. snd s > 0) scored))))"

section \<open>Requests (server/mcp-server.ts and server/search-mode.ts)\<close>

text \<open>
  The platform functions the program calls are parameters of the model: \<open>String\<close>,
  \<open>encodeURIComponent\<close>, \<open>URLSearchParams.toString\<close>, \<open>JSON.stringify\<close> with and without
  indentation, and \<open>fetch\<close> (the authenticated one of the servers, the global one of the
  token exchange) with whatever the network answers: it throws, or it returns a response
  whose body may or may not be readable as JSON.
\<close>

record request =
  rq_url :: string
  rq_method :: string
  rq_headers :: "(string \<times> string) list"
  rq_body :: "string option"

record response =
  resp_ok :: bool
  resp_statusText :: string
  resp_contentType :: "string option"
  resp_json :: "error + jsval"
  resp_text :: "error + string"

datatype fetchOutcome = FetchThrows error | FetchResponse response

record platform =
  pf_String :: "jsval \<Rightarrow> string"
  pf_encodeURIComponent :: "string \<Rightarrow> string"
  pf_queryString :: "(string \<times> string) list \<Rightarrow> string"
  pf_stringify :: "jsval \<Rightarrow> string"
  pf_stringifyPretty :: "jsval \<Rightarrow> string"
  pf_fetch :: "request \<Rightarrow> fetchOutcome"

text \<open>\<open>s.replace(pattern, replacement)\<close> with a string pattern: the first occurrence only.\<close>

fun replaceFirst :: "string \<Rightarrow> string \<Rightarrow> string \<Rightarrow> string" where
  "replaceFirst pat rep [] = (if pat = [] then rep else [])"
| "replaceFirst pat rep (c # cs) =
     (if prefix pat (c # cs) then rep @ drop (length pat) (c # cs)
      else c # replaceFirst pat rep cs)"

fun substitutePathParams ::
  "platform \<Rightarrow> ParameterInfo list \<Rightarrow> jsobject \<Rightarrow> string \<Rightarrow> string" where
  "substitutePathParams pf [] args url = url"
| "substitutePathParams pf (param # ps) args url =
     substitutePathParams pf ps args
       (let v = getProp args (p_name param)
        in if v \<noteq> JUndefined
           then replaceFirst (''{'' @ p_name param @ ''}'')
                  (pf_encodeURIComponent pf (pf_String pf v)) url
           else url)"

fun collectStrings ::
  "platform \<Rightarrow> ParameterInfo list \<Rightarrow> jsobject \<Rightarrow> (string \<times> string) list
     \<Rightarrow> (string \<times> string) list" where
  "collectStrings pf [] args acc = acc"
| "collectStrings pf (param # ps) args acc =
     collectStrings pf ps args
       (let v = getProp args (p_name param)
        in if v \<noteq> JUndefined then AList.update (p_name param) (pf_String pf v) acc else acc)"

definition buildUrl :: "platform \<Rightarrow> string \<Rightarrow> ParsedEndpoint \<Rightarrow> jsobject \<Rightarrow> string" where
  "buildUrl pf baseUrl endpoint args =
     (let url = substitutePathParams pf (ep_pathParams endpoint) args (baseUrl @ ep_path endpoint);
          queryString = pf_queryString pf (collectStrings pf (ep_queryParams endpoint) args [])
      in if queryString \<noteq> [] then url @ ''?'' @ queryString else url)"

text \<open>
  The residual collection: the entries of the arguments whose key is no path parameter, no
  query parameter and none of the extra excluded keys; \<open>undefined\<close> when nothing is left.
\<close>

definition residualBody :: "string list \<Rightarrow> ParsedEndpoint \<Rightarrow> jsobject \<Rightarrow> jsval" where
  "residualBody excluded endpoint args =
     (let pathParamNames = set (map p_name (ep_pathParams endpoint));
          queryParamNames = set (map p_name (ep_queryParams endpoint));
          bodyArgs = filter (\<lambda>(key, v). key \<notin> pathParamNames \<and> key \<notin> queryParamNames
                                          \<and> key \<notin> set excluded) args
      in if length bodyArgs > 0 then JObj bodyArgs else JUndefined)"

text \<open>\<open>extractBody\<close> of the full mode.\<close>

definition extractBody :: "ParsedEndpoint \<Rightarrow> jsobject \<Rightarrow> jsval" where
  "extractBody endpoint args =
     (if ep_requestBody endpoint = None then JUndefined
      else if getProp args ''body'' \<noteq> JUndefined then getProp args ''body''
      else residualBody [] endpoint args)"

text \<open>The body lines of \<open>executeApiCall\<close> in the search mode.\<close>

definition searchModeBody :: "ParsedEndpoint \<Rightarrow> jsobject \<Rightarrow> jsval" where
  "searchModeBody endpoint args = residualBody [''endpoint_id''] endpoint args"

definition declaredContentType :: "ParsedEndpoint \<Rightarrow> string option" where
  "declaredContentType endpoint =
     (case ep_requestBody endpoint of
        None \<Rightarrow> None
      | Some rb \<Rightarrow> if rb_contentType rb \<noteq> [] then Some (rb_contentType rb) else None)"

text \<open>\<open>body: body ? JSON.stringify(body) : undefined\<close>\<close>

definition serializeBody :: "platform \<Rightarrow> jsval \<Rightarrow> string option" where
  "serializeBody pf body = (if truthy body then Some (pf_stringify pf body) else None)"

definition fullModeRequest :: "platform \<Rightarrow> string \<Rightarrow> ParsedEndpoint \<Rightarrow> jsobject \<Rightarrow> request" where
  "fullModeRequest pf baseUrl endpoint args =
     (let url = buildUrl pf baseUrl endpoint args;
          body = extractBody endpoint args;
          headers = (case declaredContentType endpoint of
                       None \<Rightarrow> []
                     | Some ct \<Rightarrow> [(''Content-Type'', ct)]);
          headers = collectStrings pf (ep_headerParams endpoint) args headers
      in \<lparr>rq_url = url, rq_method = toUpperCase (ep_method endpoint),
          rq_headers = headers, rq_body = serializeBody pf body\<rparr>)"

definition searchModeRequest :: "platform \<Rightarrow> string \<Rightarrow> ParsedEndpoint \<Rightarrow> jsobject \<Rightarrow> request" where
  "searchModeRequest pf baseUrl endpoint args =
     (let url = buildUrl pf baseUrl endpoint args;
          body = searchModeBody endpoint args;
          headers = (case declaredContentType endpoint of
                       Some ct \<Rightarrow> [(''Content-Type'', ct)]
                     | None \<Rightarrow> if truthy body then [(''Content-Type'', ''application/json'')] else [])
      in \<lparr>rq_url = url, rq_method = toUpperCase (ep_method endpoint),
          rq_headers = headers, rq_body = serializeBody pf body\<rparr>)"

text \<open>
  The end of both \<open>executeApiCall\<close>s: the response is read as JSON when its content type
  says so and as text otherwise; a throw of \<open>fetch\<close> or of the reader is a throw of the call.
\<close>

definition readResponse :: "fetchOutcome \<Rightarrow> error + jsval" where
  "readResponse outcome =
     (case outcome of
        FetchThrows e \<Rightarrow> Inl e
      | FetchResponse r \<Rightarrow>
          if includesStr (case resp_contentType r of None \<Rightarrow> [] | Some ct \<Rightarrow> ct) ''application/json''
          then resp_json r
          else (case resp_text r of Inl e \<Rightarrow> Inl e | Inr t \<Rightarrow> Inr (JStr t)))"

definition executeApiCall :: "platform \<Rightarrow> string \<Rightarrow> ParsedEndpoint \<Rightarrow> jsobject \<Rightarrow> error + jsval" where
  "executeApiCall pf baseUrl endpoint args =
     readResponse (pf_fetch pf (fullModeRequest pf baseUrl endpoint args))"

definition executeApiCallSearch ::
  "platform \<Rightarrow> string \<Rightarrow> ParsedEndpoint \<Rightarrow> jsobject \<Rightarrow> error + jsval" where
  "executeApiCallSearch pf baseUrl endpoint args =
     readResponse (pf_fetch pf (searchModeRequest pf baseUrl endpoint args))"

section \<open>The call handler of the full mode (server/mcp-server.ts)\<close>

text \<open>
  A handler either returns a result, \<open>{content: [{type: 'text', text}], isError?}\<close>, or
  throws; what it throws leaves the handler and reaches the protocol layer.
\<close>

record CallToolResult =
  cr_text :: string
  cr_isError :: bool

definition errorMessage :: "error \<Rightarrow> string" where
  "errorMessage e = (case e of Error m \<Rightarrow> m | TypeError m \<Rightarrow> m | NonError \<Rightarrow> ''Unknown error'')"

definition callToolFull ::
  "platform \<Rightarrow> string \<Rightarrow> GeneratedTool list \<Rightarrow> string \<Rightarrow> jsobject option \<Rightarrow> error + CallToolResult" where
  "callToolFull pf baseUrl tools toolName arguments =
     (let args = (case arguments of None \<Rightarrow> [] | Some a \<Rightarrow> a) in
      case find (\<lambda>t. t_name t = toolName) tools of
        None \<Rightarrow> Inl (Error (''Unknown tool: '' @ toolName))
      | Some tool \<Rightarrow>
          (case executeApiCall pf baseUrl (t_endpoint tool) args of
             Inr result \<Rightarrow>
               Inr \<lparr>cr_text = (case result of JStr s \<Rightarrow> s | _ \<Rightarrow> pf_stringifyPretty pf result),
                    cr_isError = False\<rparr>
           | Inl e \<Rightarrow> Inr \<lparr>cr_text = ''Error: '' @ errorMessage e, cr_isError = True\<rparr>))"

section \<open>The OAuth2 token exchange (auth/handlers.ts)\<close>

record AuthConfig =
  au_type :: string
  au_token :: "string option"
  au_headerName :: "string option"
  au_username :: "string option"
  au_password :: "string option"
  au_clientId :: "string option"
  au_clientSecret :: "string option"
  au_tokenUrl :: "string option"

text \<open>\<open>data.access_token\<close>: reading a property of \<open>null\<close> or \<open>undefined\<close> throws.\<close>

definition readProperty :: "jsval \<Rightarrow> string \<Rightarrow> error + jsval" where
  "readProperty v key =
     (case v of
        JUndefined \<Rightarrow> Inl (TypeError (''Cannot read properties of undefined (reading '' @ key @ '')''))
      | JNull \<Rightarrow> Inl (TypeError (''Cannot read properties of null (reading '' @ key @ '')''))
      | JObj kvs \<Rightarrow> Inr (getProp kvs key)
      | _ \<Rightarrow> Inr JUndefined)"

definition tokenRequest :: "platform \<Rightarrow> AuthConfig \<Rightarrow> request" where
  "tokenRequest pf auth =
     \<lparr>rq_url = the (au_tokenUrl auth), rq_method = ''POST'',
      rq_headers = [(''Content-Type'', ''application/x-www-form-urlencoded'')],
      rq_body = Some (pf_queryString pf
                  [(''grant_type'', ''client_credentials''),
                   (''client_id'', the (au_clientId auth)),
                   (''client_secret'', the (au_clientSecret auth))])\<rparr>"

text \<open>The \<open>try\<close> block of \<open>getOAuth2Token\<close>.\<close>

definition tokenExchange :: "platform \<Rightarrow> AuthConfig \<Rightarrow> error + jsval" where
  "tokenExchange pf auth =
     (case pf_fetch pf (tokenRequest pf auth) of
        FetchThrows e \<Rightarrow> Inl e
      | FetchResponse r \<Rightarrow>
          if \<not> resp_ok r then Inl (Error (''OAuth2 token request failed: '' @ resp_statusText r))
          else (case resp_json r of
                  Inl e \<Rightarrow> Inl e
                | Inr data \<Rightarrow> readProperty data ''access_token''))"

text \<open>The guard, and the \<open>catch\<close> that logs what was thrown and returns \<open>null\<close>.\<close>

definition getOAuth2Token :: "platform \<Rightarrow> AuthConfig \<Rightarrow> error + jsval" where
  "getOAuth2Token pf auth =
     (if au_type auth \<noteq> ''oauth2'' \<or> \<not> truthyStr (au_tokenUrl auth)
         \<or> \<not> truthyStr (au_clientId auth) \<or> \<not> truthyStr (au_clientSecret auth)
      then Inr JNull
      else (case tokenExchange pf auth of
              Inr token \<Rightarrow> Inr token
            | Inl e \<Rightarrow> Inr JNull))"

section \<open>Notions used in the statements\<close>

text \<open>A tool is in the group of a tag.\<close>

definition inGroup :: "(string \<times> GeneratedTool list) list \<Rightarrow> string \<Rightarrow> GeneratedTool \<Rightarrow> bool" where
  "inGroup groups tag tool = (case map_of groups tag of None \<Rightarrow> False | Some g \<Rightarrow> tool \<in> set g)"

text \<open>The number a value of a counting record stands for; a text stands for none.\<close>

definition numberOf :: "countValue \<Rightarrow> nat" where
  "numberOf v = (case v of Count n \<Rightarrow> n | Text s \<Rightarrow> 0)"

text \<open>The number a counting record holds for a key, zero when the key is absent.\<close>

definition countOf :: "(string \<times> countValue) list \<Rightarrow> string \<Rightarrow> nat" where
  "countOf counts key = (case map_of counts key of None \<Rightarrow> 0 | Some v \<Rightarrow> numberOf v)"

text \<open>Every value of a counting record is a number, and none is zero.\<close>

definition allCounts :: "(string \<times> countValue) list \<Rightarrow> bool" where
  "allCounts counts =
     list_all (\<lambda>kv. case snd kv of Count n \<Rightarrow> 0 < n | Text s \<Rightarrow> False) counts"


text \<open>
  The score the code gives, as a sum: a field scores 10 when it contains the whole query, and
  5 more for every piece of the split query that it contains; a tool scores the sum over its
  fields.
\<close>

definition fieldScore :: "string \<Rightarrow> string \<Rightarrow> int" where
  "fieldScore queryLower field =
     (if includesStr field queryLower then 10 else 0)
     + 5 * int (length (filter (includesStr field) (splitWhitespace queryLower)))"

definition toolScore :: "string \<Rightarrow> GeneratedTool \<Rightarrow> int" where
  "toolScore queryLower tool = sum_list (map (fieldScore queryLower) (searchFields tool))"

text \<open>
  The scoring rule in the words of the specification. The words of a query are its maximal
  runs of characters that are not white space; the fields of a tool are its name, its
  description, the path, the summary or the empty string, the operationId and every tag,
  lowercased; a field scores 10 when it contains the whole lowercased query and 5 more for
  every word of the lowercased query that it contains, and a tool scores the sum over its
  fields.
\<close>

fun wordsFrom :: "string \<Rightarrow> string \<Rightarrow> string list" where
  "wordsFrom cur [] = (if cur = [] then [] else [cur])"
| "wordsFrom cur (c # cs) =
     (if isSpace c then (if cur = [] then wordsFrom [] cs else cur # wordsFrom [] cs)
      else wordsFrom (cur @ [c]) cs)"

definition queryWords :: "string \<Rightarrow> string list" where
  "queryWords q = wordsFrom [] q"

definition claimedFields :: "GeneratedTool \<Rightarrow> string list" where
  "claimedFields tool =
     map toLowerCase
       ([t_name tool, t_description tool, ep_path (t_endpoint tool),
         (case ep_summary (t_endpoint tool) of None \<Rightarrow> [] | Some s \<Rightarrow> s),
         ep_operationId (t_endpoint tool)]
        @ ep_tags (t_endpoint tool))"

definition claimedScore :: "string \<Rightarrow> GeneratedTool \<Rightarrow> int" where
  "claimedScore query tool =
     (let q = toLowerCase query
      in sum_list
           (map (\<lambda>field. (if includesStr field q then 10 else 0)
                          + 5 * int (length (filter (includesStr field) (queryWords q))))
              (claimedFields tool)))"

text \<open>The candidates of a search: the tools that pass the tag filter and the method filter.\<close>

definition candidates :: "GeneratedTool list \<Rightarrow> SearchOptions option \<Rightarrow> GeneratedTool list" where
  "candidates tools options =
     filterByMethods (optField so_methods options) (filterByTags (optField so_tags options) tools)"

section \<open>Example inputs\<close>

definition blankEndpoint :: ParsedEndpoint where
  "blankEndpoint =
     \<lparr>ep_operationId = ''op'', ep_method = ''get'', ep_path = ''/'', ep_summary = None,
      ep_description = None, ep_pathParams = [], ep_queryParams = [], ep_headerParams = [],
      ep_requestBody = None, ep_responses = [], ep_tags = [], ep_security = []\<rparr>"

definition petIdParam :: ParameterInfo where
  "petIdParam =
     \<lparr>p_name = ''petId'', p_required = True, p_description = Some ''ID of pet to return'',
      p_type = ''number'', p_format = Some ''int64'', p_enum = None, p_default = JUndefined\<rparr>"

definition petEndpoint :: ParsedEndpoint where
  "petEndpoint =
     blankEndpoint\<lparr>ep_operationId := ''getPetById'', ep_path := ''/pet/{petId}'',
       ep_summary := Some ''Find pet by ID'', ep_pathParams := [petIdParam], ep_tags := [''pet'']\<rparr>"

definition storeEndpoint :: ParsedEndpoint where
  "storeEndpoint =
     blankEndpoint\<lparr>ep_operationId := ''getStoreInventory'', ep_path := ''/store/inventory'',
       ep_summary := Some ''Returns pet inventories by status'', ep_tags := [''store'']\<rparr>"

definition emptySchema :: InputSchema where
  "emptySchema = \<lparr>is_type = ''object'', is_properties = [], is_required = []\<rparr>"

definition petTool :: GeneratedTool where
  "petTool =
     \<lparr>t_name = ''get_pet_by_id'',
      t_description = ''Find pet by ID'' @ [CHR 0x0A, CHR 0x0A] @ ''Tags: pet'',
      t_inputSchema =
        \<lparr>is_type = ''object'',
         is_properties =
           [(''petId'', JObj [(''type'', JStr ''number''), (''description'', JStr ''ID of pet to return''),
                              (''format'', JStr ''int64'')])],
         is_required = [''petId'']\<rparr>,
      t_endpoint = petEndpoint\<rparr>"

definition storeTool :: GeneratedTool where
  "storeTool =
     \<lparr>t_name = ''get_store_inventory'',
      t_description = ''Returns pet inventories by status'' @ [CHR 0x0A, CHR 0x0A] @ ''Tags: store'',
      t_inputSchema = emptySchema,
      t_endpoint = storeEndpoint\<rparr>"







text \<open>An operation with a required query parameter of the name \<open>__proto__\<close>.\<close>

definition protoEndpoint :: ParsedEndpoint where
  "protoEndpoint =
     blankEndpoint\<lparr>ep_operationId := ''listPets'', ep_path := ''/pets'',
       ep_queryParams :=
         [\<lparr>p_name = ''__proto__'', p_required = True, p_description = None, p_type = ''string'',
           p_format = None, p_enum = None, p_default = JUndefined\<rparr>]\<rparr>"

text \<open>A tool with two tags, a tool with none and a tool with the tag \<open>constructor\<close>.\<close>

definition twoTagTool :: GeneratedTool where
  "twoTagTool =
     \<lparr>t_name = ''find_pets'', t_description = ''GET /pets'', t_inputSchema = emptySchema,
      t_endpoint = blankEndpoint\<lparr>ep_operationId := ''findPets'', ep_path := ''/pets'',
                     ep_tags := [''pet'', ''store'']\<rparr>\<rparr>"

definition untaggedTool :: GeneratedTool where
  "untaggedTool =
     \<lparr>t_name = ''ping'', t_description = ''GET /ping'', t_inputSchema = emptySchema,
      t_endpoint = blankEndpoint\<lparr>ep_operationId := ''ping'', ep_path := ''/ping''\<rparr>\<rparr>"

definition constructorTool :: GeneratedTool where
  "constructorTool =
     \<lparr>t_name = ''build'', t_description = ''GET /build'', t_inputSchema = emptySchema,
      t_endpoint = blankEndpoint\<lparr>ep_operationId := ''build'', ep_path := ''/build'',
                     ep_tags := [''constructor'']\<rparr>\<rparr>"

text \<open>
  A platform whose network is down: every \<open>fetch\<close> throws; and the platform on which every
  \<open>fetch\<close> is answered by a given response.
\<close>

definition offlinePlatform :: platform where
  "offlinePlatform =
     \<lparr>pf_String = (\<lambda>v. case v of JStr s \<Rightarrow> s | _ \<Rightarrow> ''[value]''),
      pf_encodeURIComponent = (\<lambda>s. s),
      pf_queryString = (\<lambda>kvs. join ''&'' (map (\<lambda>(k, v). k @ ''='' @ v) kvs)),
      pf_stringify = (\<lambda>v. ''[json]''),
      pf_stringifyPretty = (\<lambda>v. ''[json]''),
      pf_fetch = (\<lambda>rq. FetchThrows (Error ''fetch failed''))\<rparr>"

definition tokenResponse :: response where
  "tokenResponse =
     \<lparr>resp_ok = True, resp_statusText = ''OK'', resp_contentType = Some ''application/json'',
      resp_json = Inr (JObj [(''access_token'', JStr ''abc''), (''expires_in'', JNum 3600)]),
      resp_text = Inr ''{}''\<rparr>"

definition answering :: "response \<Rightarrow> platform" where
  "answering r = offlinePlatform\<lparr>pf_fetch := (\<lambda>rq. FetchResponse r)\<rparr>"

definition oauthConfig :: AuthConfig where
  "oauthConfig =
     \<lparr>au_type = ''oauth2'', au_token = None, au_headerName = None, au_username = None,
      au_password = None, au_clientId = Some ''id'', au_clientSecret = Some ''secret'',
      au_tokenUrl = Some ''https://auth.example/token''\<rparr>"


definition deniedResponse :: response where
  "deniedResponse =
     \<lparr>resp_ok = False, resp_statusText = ''Unauthorized'', resp_contentType = Some ''text/plain'',
      resp_json = Inl (Error ''Unexpected token'') , resp_text = Inr ''denied''\<rparr>"

definition garbledResponse :: response where
  "garbledResponse =
     \<lparr>resp_ok = True, resp_statusText = ''OK'', resp_contentType = Some ''text/html'',
      resp_json = Inl (Error ''Unexpected token < in JSON''), resp_text = Inr ''<html>''\<rparr>"

section \<open>Properties of the tool name\<close>

lemma toLowerChar_upper: "isUpper c \<Longrightarrow> isLower (toLowerChar c)"
  unfolding isUpper_def isLower_def toLowerChar_def upperChars_def lowerChars_def
  by auto

lemma toLowerChar_other: "\<not> isUpper c \<Longrightarrow> toLowerChar c = c"
  unfolding isUpper_def toLowerChar_def upperChars_def lowerChars_def
  by (auto split: option.splits if_splits)

lemma lowered_sanitized_char:
  "isAlnum c \<or> c = CHR ''_'' \<Longrightarrow>
     isLower (toLowerChar c) \<or> isDigit (toLowerChar c) \<or> toLowerChar c = CHR ''_''"
  unfolding isAlnum_def isLetter_def
  by (cases "isUpper c") (auto simp: toLowerChar_upper toLowerChar_other)

lemma lowered_sanitized_all:
  "list_all (\<lambda>d. isLower d \<or> isDigit d \<or> d = CHR ''_'') (toLowerCase (sanitize s))"
  unfolding toLowerCase_def sanitize_def list_all_iff
  using lowered_sanitized_char by auto

lemma insertUnderscores_head:
  "s \<noteq> [] \<Longrightarrow> insertUnderscores s \<noteq> [] \<and> hd (insertUnderscores s) = hd s"
  by (induction s rule: insertUnderscores.induct) auto

lemma lowered_letter: "isLetter c \<Longrightarrow> isLower (toLowerChar c)"
  unfolding isLetter_def
  by (cases "isUpper c") (auto simp: toLowerChar_upper toLowerChar_other)

text \<open>
  C6. For every non-empty operationId that starts with an ASCII letter, the generated tool
  name (underscore between a lowercase letter and a directly following uppercase letter,
  every character outside \<open>[A-Za-z0-9_]\<close> replaced by an underscore, the result lowercased)
  matches \<open>^[a-z][a-z0-9_]*$\<close>; it is a function of the operationId alone, so it is
  deterministic.
\<close>

theorem generateToolName_pattern:
  assumes "ep_operationId endpoint \<noteq> []"
    and "isLetter (hd (ep_operationId endpoint))"
  shows "matchesToolNamePattern (generateToolName endpoint)
         \<and> generateToolName endpoint
             = toLowerCase (sanitize (insertUnderscores (ep_operationId endpoint)))
         \<and> (\<forall>other. ep_operationId other = ep_operationId endpoint
               \<longrightarrow> generateToolName other = generateToolName endpoint)"
proof -
  let ?s = "ep_operationId endpoint"
  obtain c cs where ins: "insertUnderscores ?s = c # cs" and c: "c = hd ?s"
    using insertUnderscores_head [OF assms(1)] by (cases "insertUnderscores ?s") auto
  have letter: "isLetter c" using assms(2) c by simp
  have name: "generateToolName endpoint = toLowerCase (sanitize (c # cs))"
    by (simp add: generateToolName_def ins)
  have first: "hd (generateToolName endpoint) = toLowerChar c"
    using letter by (auto simp: name toLowerCase_def sanitize_def isAlnum_def)
  have nonempty: "generateToolName endpoint \<noteq> []"
    by (simp add: name toLowerCase_def sanitize_def)
  have all: "list_all (\<lambda>d. isLower d \<or> isDigit d \<or> d = CHR ''_'') (generateToolName endpoint)"
    unfolding name by (rule lowered_sanitized_all)
  have "matchesToolNamePattern (generateToolName endpoint)"
    using nonempty first all lowered_letter [OF letter]
    by (cases "generateToolName endpoint") (auto simp: matchesToolNamePattern_def)
  then show ?thesis
    by (simp add: generateToolName_def)
qed

text \<open>The definitions that evaluate the character functions on a literal.\<close>

lemmas char_defs = isAlnum_def isLetter_def isLower_def isUpper_def isDigit_def
  upperChars_def lowerChars_def digitChars_def toLowerChar_def toUpperChar_def
  toLowerCase_def toUpperCase_def

theorem generateToolName_pattern_witness:
  "ep_operationId petEndpoint \<noteq> [] \<and> isLetter (hd (ep_operationId petEndpoint))
   \<and> generateToolName petEndpoint = ''get_pet_by_id''
   \<and> matchesToolNamePattern (generateToolName petEndpoint)"
proof -
  have a: "ep_operationId petEndpoint \<noteq> []"
    by (simp add: petEndpoint_def blankEndpoint_def)
  have b: "isLetter (hd (ep_operationId petEndpoint))"
    by (simp add: petEndpoint_def blankEndpoint_def char_defs)
  have c: "generateToolName petEndpoint = ''get_pet_by_id''"
    by (simp add: generateToolName_def sanitize_def petEndpoint_def blankEndpoint_def char_defs)
  from generateToolName_pattern [OF a b]
  have d: "matchesToolNamePattern (generateToolName petEndpoint)" by (rule conjunct1)
  from a b c d show ?thesis by blast
qed

section \<open>Properties of the operation identifier\<close>

text \<open>
  C2. The identifier synthesised for method \<open>get\<close> and path \<open>/pets/{petId}\<close>. The placeholder
  is replaced by \<open>PetId\<close>, but the camel-casing step lowercases everything after the first
  letter of each later word, so the result is \<open>getPetsPetid\<close> and not \<open>getPetsPetId\<close>; the path
  of the comment on \<open>generateOperationId\<close>, \<open>/pets/{petId}/photos\<close>, gives
  \<open>getPetsPetidPhotos\<close>.
\<close>

theorem generateOperationId_example:
  "generateOperationId ''get'' ''/pets/{petId}'' = ''getPetsPetid''
   \<and> generateOperationId ''get'' ''/pets/{petId}'' \<noteq> ''getPetsPetId''
   \<and> generateOperationId ''get'' ''/pets/{petId}/photos'' = ''getPetsPetidPhotos''"
  by (simp add: generateOperationId_def cleanPath_def blankNonAlnum_def camelWord_def capitalize_def
      char_defs)

section \<open>Properties of the input schema\<close>







text \<open>The example tools are what \<open>endpointToTool\<close> makes of the example endpoints.\<close>

lemma endpointToTool_pet: "endpointToTool petEndpoint = Inr petTool"
  by (simp add: endpointToTool_def generateInputSchema_def addRequestBody_def paramToJsonSchema_def
      generateToolName_def generateToolDescription_def sanitize_def truthyStr_def optStr_def
      setProp_def petEndpoint_def blankEndpoint_def petIdParam_def petTool_def char_defs)

lemma endpointToTool_store: "endpointToTool storeEndpoint = Inr storeTool"
  by (simp add: endpointToTool_def generateInputSchema_def addRequestBody_def paramToJsonSchema_def
      generateToolName_def generateToolDescription_def sanitize_def truthyStr_def optStr_def
      setProp_def storeEndpoint_def blankEndpoint_def storeTool_def emptySchema_def char_defs)

text \<open>
  A parameter of the name \<open>__proto__\<close> leaves no property, and its name is pushed all the
  same.
\<close>

lemma generateInputSchema_proto:
  "generateInputSchema protoEndpoint
     = Inr \<lparr>is_type = ''object'', is_properties = [], is_required = [''__proto__'']\<rparr>"
  by (simp add: generateInputSchema_def addRequestBody_def setProp_def protoEndpoint_def
      blankEndpoint_def)






section \<open>Properties of the grouping and of the summary\<close>

text \<open>
  Under a key that is no member of \<open>Object.prototype\<close>, on a record of numbers, \<open>increment\<close>
  counts.
\<close>

lemma increment_plain:
  "k \<notin> set objectPrototypeKeys \<Longrightarrow>
     increment k cs
       = AList.update k
           (case map_of cs k of
              None \<Rightarrow> Count 1
            | Some (Count n) \<Rightarrow> Count (n + 1)
            | Some (Text s) \<Rightarrow> if s = [] then Count 1 else Text (s @ ''1''))
           cs"
  by (auto simp: increment_def setProp_def objectPrototypeKeys_def split: option.splits)

lemma allCounts_lookup:
  "allCounts cs \<Longrightarrow> map_of cs k = Some v \<Longrightarrow> \<exists>n. v = Count n \<and> 0 < n"
proof -
  assume a: "allCounts cs" and m: "map_of cs k = Some v"
  from m have "(k, v) \<in> set cs" by (rule map_of_SomeD)
  with a have "case v of Count n \<Rightarrow> 0 < n | Text s \<Rightarrow> False"
    by (auto simp: allCounts_def list_all_iff)
  then show ?thesis by (cases v) auto
qed

lemma update_allCounts:
  "allCounts cs \<Longrightarrow> 0 < n \<Longrightarrow> allCounts (AList.update k (Count n) cs)"
  by (induction cs) (auto simp: allCounts_def)

lemma update_sum:
  "sum_list (map (\<lambda>kv. numberOf (snd kv)) (AList.update k v cs)) + countOf cs k
     = sum_list (map (\<lambda>kv. numberOf (snd kv)) cs) + numberOf v"
  by (induction cs) (auto simp: countOf_def)

lemma increment_count:
  assumes k: "k \<notin> set objectPrototypeKeys" and a: "allCounts cs"
  shows "increment k cs = AList.update k (Count (countOf cs k + 1)) cs"
proof (cases "map_of cs k")
  case None
  then show ?thesis by (simp add: increment_plain [OF k] countOf_def)
next
  case (Some v)
  from allCounts_lookup [OF a Some] obtain n where "v = Count n" by blast
  with Some show ?thesis by (simp add: increment_plain [OF k] countOf_def numberOf_def)
qed

lemma increment_allCounts:
  "k \<notin> set objectPrototypeKeys \<Longrightarrow> allCounts cs \<Longrightarrow> allCounts (increment k cs)"
  by (simp add: increment_count update_allCounts)

lemma increment_sum:
  "k \<notin> set objectPrototypeKeys \<Longrightarrow> allCounts cs \<Longrightarrow>
     sum_list (map (\<lambda>kv. numberOf (snd kv)) (increment k cs)) = sum_list (map (\<lambda>kv. numberOf (snd kv)) cs) + 1"
  using update_sum [of k "Count (countOf cs k + 1)" cs]
  by (simp add: increment_count numberOf_def)

lemma increment_keys:
  "k \<notin> set objectPrototypeKeys \<Longrightarrow> allCounts cs \<Longrightarrow>
     fst ` set (increment k cs) = insert k (fst ` set cs)"
  by (simp add: increment_count dom_update)

lemma increment_lookup:
  "k \<notin> set objectPrototypeKeys \<Longrightarrow> allCounts cs \<Longrightarrow>
     countOf (increment k cs) k' = (if k' = k then countOf cs k + 1 else countOf cs k')"
  by (simp add: increment_count countOf_def update_conv' numberOf_def)

lemma countTags_counts:
  "\<forall>tag\<in>set tags. tag \<notin> set objectPrototypeKeys \<Longrightarrow> allCounts cs \<Longrightarrow>
     allCounts (countTags tags cs)
   \<and> sum_list (map (\<lambda>kv. numberOf (snd kv)) (countTags tags cs))
       = sum_list (map (\<lambda>kv. numberOf (snd kv)) cs) + length tags
   \<and> fst ` set (countTags tags cs) = fst ` set cs \<union> set tags
   \<and> (\<forall>k. countOf (countTags tags cs) k = countOf cs k + count_list tags k)"
proof (induction tags arbitrary: cs)
  case Nil
  then show ?case by simp
next
  case (Cons tag tags)
  from Cons.prems have k: "tag \<notin> set objectPrototypeKeys"
    and ks: "\<forall>tag\<in>set tags. tag \<notin> set objectPrototypeKeys" by simp_all
  note a = increment_allCounts [OF k Cons.prems(2)]
  from Cons.IH [OF ks a] show ?case
    by (auto simp: increment_sum [OF k Cons.prems(2)] increment_keys [OF k Cons.prems(2)]
        increment_lookup [OF k Cons.prems(2)])
qed

lemma summaryLoop_tags:
  "summaryLoop tools (bm, bt) = (bm', bt') \<Longrightarrow>
   \<forall>t\<in>set tools. \<forall>tag\<in>set (ep_tags (t_endpoint t)). tag \<notin> set objectPrototypeKeys \<Longrightarrow>
   allCounts bt \<Longrightarrow>
     allCounts bt'
   \<and> sum_list (map (\<lambda>kv. numberOf (snd kv)) bt')
       = sum_list (map (\<lambda>kv. numberOf (snd kv)) bt)
         + sum_list (map (\<lambda>t. length (ep_tags (t_endpoint t))) tools)
   \<and> fst ` set bt' = fst ` set bt \<union> (\<Union>t\<in>set tools. set (ep_tags (t_endpoint t)))
   \<and> (\<forall>k. countOf bt' k
            = countOf bt k + sum_list (map (\<lambda>t. count_list (ep_tags (t_endpoint t)) k) tools))"
proof (induction tools arbitrary: bm bt)
  case Nil
  then show ?case by simp
next
  case (Cons t ts)
  from Cons.prems(2) have k: "\<forall>tag\<in>set (ep_tags (t_endpoint t)). tag \<notin> set objectPrototypeKeys"
    and ks: "\<forall>t\<in>set ts. \<forall>tag\<in>set (ep_tags (t_endpoint t)). tag \<notin> set objectPrototypeKeys"
    by simp_all
  note c = countTags_counts [OF k Cons.prems(3)]
  from Cons.prems(1)
  have step: "summaryLoop ts (increment (toUpperCase (ep_method (t_endpoint t))) bm,
                              countTags (ep_tags (t_endpoint t)) bt) = (bm', bt')"
    by simp
  from c have a: "allCounts (countTags (ep_tags (t_endpoint t)) bt)" by simp
  from Cons.IH [OF step ks a] c show ?case by auto
qed

lemma pushToGroup_keeps:
  "inGroup groups k x \<Longrightarrow>
   inGroup (AList.update a ((case map_of groups a of None \<Rightarrow> [] | Some e \<Rightarrow> e) @ [tool]) groups) k x"
  by (auto simp: inGroup_def update_conv' split: option.splits)

lemma addToGroups_keeps: "inGroup groups k x \<Longrightarrow> inGroup (addToGroups tool tags groups) k x"
proof (induction tags arbitrary: groups)
  case Nil
  then show ?case by simp
next
  case (Cons a tags)
  from Cons.IH [OF pushToGroup_keeps [OF Cons.prems]] show ?case by simp
qed

lemma addToGroups_adds: "tag \<in> set tags \<Longrightarrow> inGroup (addToGroups tool tags groups) tag tool"
proof (induction tags arbitrary: groups)
  case Nil
  then show ?case by simp
next
  case (Cons a tags)
  show ?case
  proof (cases "tag = a")
    case True
    have "inGroup (AList.update a ((case map_of groups a of None \<Rightarrow> [] | Some e \<Rightarrow> e) @ [tool]) groups)
            a tool"
      by (simp add: inGroup_def update_conv')
    then show ?thesis using True by (simp add: addToGroups_keeps)
  next
    case False
    then show ?thesis using Cons by simp
  qed
qed

lemma groupToolsLoop_keeps: "inGroup groups k x \<Longrightarrow> inGroup (groupToolsLoop tools groups) k x"
  by (induction tools arbitrary: groups) (auto simp: addToGroups_keeps)

lemma groupToolsLoop_default:
  "tool \<in> set tools \<Longrightarrow> ep_tags (t_endpoint tool) = [] \<Longrightarrow>
     inGroup (groupToolsLoop tools groups) ''default'' tool"
proof (induction tools arbitrary: groups)
  case Nil
  then show ?case by simp
next
  case (Cons a tools)
  show ?case
  proof (cases "tool = a")
    case True
    then have "inGroup (addToGroups a [''default''] groups) ''default'' tool"
      using addToGroups_adds [of "''default''" "[''default'']" a groups] by simp
    then show ?thesis using True Cons.prems(2) by (simp add: groupToolsLoop_keeps)
  next
    case False
    then show ?thesis using Cons by simp
  qed
qed

section \<open>Properties of the search ranking\<close>

lemma insertSorted_insort:
  "insertSorted (\<lambda>a b. snd b - snd a) x ys = insort_key (\<lambda>s. - snd s) x (ys :: ('a \<times> int) list)"
  by (induction ys) auto

lemma sortBy_sort_key:
  "sortBy (\<lambda>a b. snd b - snd a) xs = sort_key (\<lambda>s. - snd s) (xs :: ('a \<times> int) list)"
  unfolding sortBy_def sort_key_def
  by (induction xs) (auto simp: insertSorted_insort)

lemma sortBy_sorted:
  "sorted_wrt (\<lambda>a b. snd a \<ge> snd b) (sortBy (\<lambda>a b. snd b - snd a) (xs :: ('a \<times> int) list))"
proof -
  have "sorted (map (\<lambda>s. - snd s) (sort_key (\<lambda>s. - snd s) xs))"
    by (rule sorted_sort_key)
  then show ?thesis
    by (simp add: sortBy_sort_key sorted_map)
qed

lemma sortBy_mset: "mset (sortBy (\<lambda>a b. snd b - snd a) (xs :: ('a \<times> int) list)) = mset xs"
  by (simp add: sortBy_sort_key)

lemma sortBy_stable:
  "filter (\<lambda>s. snd s = k) (sortBy (\<lambda>a b. snd b - snd a) (xs :: ('a \<times> int) list))
     = filter (\<lambda>s. snd s = k) xs"
proof -
  have "filter (\<lambda>s. - snd s = - k) (sort_key (\<lambda>s. - snd s) xs) = filter (\<lambda>s. - snd s = - k) xs"
    by (rule sort_key_stable)
  then show ?thesis by (simp add: sortBy_sort_key)
qed

lemma scoreWords_sum:
  "scoreWords field ws score = score + 5 * int (length (filter (includesStr field) ws))"
  by (induction ws arbitrary: score) auto

lemma scoreFields_sum: "scoreFields q fs score = score + sum_list (map (fieldScore q) fs)"
  by (induction fs arbitrary: score) (auto simp: scoreWords_sum fieldScore_def)

lemma scoreTool_toolScore: "scoreTool q tool = (tool, toolScore q tool)"
  by (simp add: scoreTool_def toolScore_def scoreFields_sum)

subsection \<open>The example tools under the query \<open>pet\<close>\<close>

lemma searchFields_pet:
  "searchFields petTool =
     [''get_pet_by_id'', ''find pet by id'' @ [CHR 0x0A, CHR 0x0A] @ ''tags: pet'', ''/pet/{petid}'',
      ''find pet by id'', ''getpetbyid'', ''pet'']"
  by (simp add: searchFields_def petTool_def petEndpoint_def blankEndpoint_def truthyStr_def char_defs)

lemma searchFields_store:
  "searchFields storeTool =
     [''get_store_inventory'',
      ''returns pet inventories by status'' @ [CHR 0x0A, CHR 0x0A] @ ''tags: store'',
      ''/store/inventory'', ''returns pet inventories by status'', ''getstoreinventory'', ''store'']"
  by (simp add: searchFields_def storeTool_def storeEndpoint_def blankEndpoint_def truthyStr_def char_defs)

lemma splitWhitespace_pet: "splitWhitespace ''pet'' = [''pet'']"
  by (simp add: isSpace_def)

lemma toolScore_pet: "toolScore ''pet'' petTool = 90"
  by (simp add: toolScore_def fieldScore_def searchFields_pet isSpace_def)

lemma toolScore_store: "toolScore ''pet'' storeTool = 30"
  by (simp add: toolScore_def fieldScore_def searchFields_store isSpace_def)

lemma tags_pet: "ep_tags (t_endpoint petTool) = [''pet'']"
  by (simp add: petTool_def petEndpoint_def blankEndpoint_def)

lemma tags_store: "ep_tags (t_endpoint storeTool) = [''store'']"
  by (simp add: storeTool_def storeEndpoint_def blankEndpoint_def)

lemma lower_pet: "toLowerCase ''pet'' = ''pet''" 
  by (simp add: char_defs)

lemma lower_store: "toLowerCase ''store'' = ''store''" 
  by (simp add: char_defs)

text \<open>
  The scenario of the specification: the query \<open>pet\<close> ranks \<open>get_pet_by_id\<close> first, and the
  tag filter \<open>store\<close> leaves \<open>get_store_inventory\<close> alone.
\<close>

lemma search_pet_unfiltered:
  "searchEndpoints [storeTool, petTool] ''pet'' None = [petTool, storeTool]"
  by (simp add: searchEndpoints_def effectiveLimit_def optField_def filterByTags_def
      filterByMethods_def scoreTool_toolScore lower_pet toolScore_pet toolScore_store
      sliceTo_def sortBy_def)

lemma search_pet_store_only:
  "searchEndpoints [storeTool, petTool] ''pet''
     (Some \<lparr>so_tags = Some [''store''], so_methods = None, so_limit = None\<rparr>) = [storeTool]"
  by (simp add: searchEndpoints_def effectiveLimit_def optField_def filterByTags_def
      filterByMethods_def scoreTool_toolScore lower_pet lower_store toolScore_pet toolScore_store
      tags_pet tags_store sliceTo_def sortBy_def)

lemma search_pet_limit_zero:
  "searchEndpoints [storeTool, petTool] ''pet''
     (Some \<lparr>so_tags = None, so_methods = None, so_limit = Some 0\<rparr>) = [petTool, storeTool]"
  by (simp add: searchEndpoints_def effectiveLimit_def optField_def filterByTags_def
      filterByMethods_def scoreTool_toolScore lower_pet toolScore_pet toolScore_store
      sliceTo_def sortBy_def)

subsection \<open>The pieces of a query\<close>

lemma splitWhitespace_nonempty: "splitWhitespace q \<noteq> []"
  by (induction q) (auto split: list.splits)

lemma splitWhitespace_pieces:
  "list_all (\<lambda>w. list_all (\<lambda>c. \<not> isSpace c) w) (splitWhitespace q)"
  by (induction q) (auto split: list.splits)

lemma splitWhitespace_concat: "concat (splitWhitespace q) = filter (\<lambda>c. \<not> isSpace c) q"
  by (induction q) (auto split: list.splits)

lemma splitWhitespace_ends:
  "(hd (splitWhitespace q) = [] \<longleftrightarrow> q = [] \<or> isSpace (hd q))
   \<and> ([] \<in> set (tl (splitWhitespace q)) \<longleftrightarrow> q \<noteq> [] \<and> isSpace (last q))"
proof (induction q)
  case Nil
  then show ?case by simp
next
  case (Cons c cs)
  show ?case
  proof (cases "isSpace c")
    case True
    show ?thesis
    proof (cases "cs \<noteq> [] \<and> isSpace (hd cs)")
      case True
      with \<open>isSpace c\<close> Cons show ?thesis by simp
    next
      case False
      have "[] \<in> set (splitWhitespace cs)
              \<longleftrightarrow> hd (splitWhitespace cs) = [] \<or> [] \<in> set (tl (splitWhitespace cs))"
        using splitWhitespace_nonempty [of cs] by (cases "splitWhitespace cs") auto
      with False \<open>isSpace c\<close> Cons show ?thesis by auto
    qed
  next
    case False
    obtain w ws where s: "splitWhitespace cs = w # ws"
      using splitWhitespace_nonempty [of cs] by (cases "splitWhitespace cs") auto
    with False Cons show ?thesis by auto
  qed
qed

lemma splitWhitespace_empty_piece:
  "[] \<in> set (splitWhitespace q) \<longleftrightarrow> q = [] \<or> isSpace (hd q) \<or> isSpace (last q)"
proof -
  have "[] \<in> set (splitWhitespace q)
              \<longleftrightarrow> hd (splitWhitespace q) = [] \<or> [] \<in> set (tl (splitWhitespace q))"
    using splitWhitespace_nonempty [of q] by (cases "splitWhitespace q") auto
  then show ?thesis using splitWhitespace_ends [of q] by auto
qed

subsection \<open>The ranking\<close>

lemma ranked_properties:
  fixes tools query options
  defines "scored \<equiv> filter (\<lambda>s. 0 < snd s)
             (map (\<lambda>t. (t, toolScore (toLowerCase query) t)) (candidates tools options))"
  defines "ranked \<equiv> sortBy (\<lambda>a b. snd b - snd a) scored"
  shows "searchEndpoints tools query options = map fst (sliceTo (effectiveLimit options) ranked)"
    and "mset ranked = mset scored"
    and "sorted_wrt (\<lambda>a b. snd a \<ge> snd b) ranked"
    and "filter (\<lambda>s. snd s = k) ranked = filter (\<lambda>s. snd s = k) scored"
proof -
  have m: "map (scoreTool q) xs = map (\<lambda>t. (t, toolScore q t)) xs" for q xs
    by (simp add: scoreTool_toolScore)
  show "searchEndpoints tools query options = map fst (sliceTo (effectiveLimit options) ranked)"
    by (simp add: searchEndpoints_def candidates_def ranked_def scored_def m)
  show "mset ranked = mset scored"
    unfolding ranked_def by (rule sortBy_mset)
  show "sorted_wrt (\<lambda>a b. snd a \<ge> snd b) ranked"
    unfolding ranked_def by (rule sortBy_sorted)
  show "filter (\<lambda>s. snd s = k) ranked = filter (\<lambda>s. snd s = k) scored"
    unfolding ranked_def by (rule sortBy_stable)
qed

subsection \<open>The score of the code and the score of the specification\<close>

lemma splitWhitespace_hd: "isSpace c \<Longrightarrow> hd (splitWhitespace (c # cs)) = []"
  by (induction cs arbitrary: c) auto

lemma wordsFrom_pieces:
  "wordsFrom cur q =
     filter (\<lambda>w. w \<noteq> []) ((cur @ hd (splitWhitespace q)) # tl (splitWhitespace q))"
proof (induction q arbitrary: cur)
  case Nil
  then show ?case by simp
next
  case (Cons c cs)
  obtain w ws where s: "splitWhitespace cs = w # ws"
    using splitWhitespace_nonempty [of cs] by (cases "splitWhitespace cs") auto
  show ?case
  proof (cases "isSpace c")
    case False
    then show ?thesis using Cons [of "cur @ [c]"] by (simp add: s)
  next
    case True
    show ?thesis
    proof (cases "cs \<noteq> [] \<and> isSpace (hd cs)")
      case t: True
      then obtain d ds where cs: "cs = d # ds" and d: "isSpace d" by (cases cs) auto
      have "w = []" using splitWhitespace_hd [OF d, of ds] s cs by simp
      then show ?thesis using True t Cons [of "[]"] by (simp add: s)
    next
      case False
      then show ?thesis using True Cons [of "[]"] by (auto simp: s)
    qed
  qed
qed

text \<open>The pieces of the code, without the empty ones, are the words of the query.\<close>

lemma pieces_words: "filter (\<lambda>w. w \<noteq> []) (splitWhitespace q) = queryWords q"
proof -
  obtain w ws where s: "splitWhitespace q = w # ws"
    using splitWhitespace_nonempty [of q] by (cases "splitWhitespace q") auto
  show ?thesis unfolding queryWords_def wordsFrom_pieces by (simp add: s)
qed

lemma includesStr_empty: "includesStr field []"
  by (cases field) auto

lemma count_pieces:
  "length (filter (includesStr field) ps)
     = length (filter (includesStr field) (filter (\<lambda>w. w \<noteq> []) ps)) + count_list ps []"
  by (induction ps) (auto simp: includesStr_empty)

lemma searchFields_claimed: "searchFields tool = claimedFields tool"
  by (auto simp: searchFields_def claimedFields_def truthyStr_def split: option.splits)

lemma fieldScore_claimed:
  "fieldScore q field =
     (if includesStr field q then 10 else 0)
     + 5 * int (length (filter (includesStr field) (queryWords q)))
     + 5 * int (count_list (splitWhitespace q) [])"
  unfolding fieldScore_def count_pieces [of field "splitWhitespace q"] pieces_words by simp

lemma sum_list_plus_const:
  "sum_list (map (\<lambda>x. f x + (c::int)) xs) = sum_list (map f xs) + c * int (length xs)"
  by (induction xs) (auto simp: algebra_simps)

text \<open>
  The score of the code is the score of the specification and 5 more for every empty piece
  and every field: every field contains the empty string.
\<close>

lemma toolScore_claimed:
  "toolScore (toLowerCase query) tool =
     claimedScore query tool
     + 5 * int (count_list (splitWhitespace (toLowerCase query)) [])
         * int (length (claimedFields tool))"
  unfolding toolScore_def claimedScore_def Let_def searchFields_claimed fieldScore_claimed
    sum_list_plus_const by simp

subsection \<open>The example tools under the query \<open>zzz\<close>\<close>

lemma lower_zzz: "toLowerCase ''zzz '' = ''zzz ''" "toLowerCase ''zzz'' = ''zzz''"
  by (simp_all add: char_defs)

lemma split_zzz: "splitWhitespace ''zzz '' = [''zzz'', []]" "queryWords ''zzz '' = [''zzz'']"
  by (simp_all add: isSpace_def queryWords_def)

lemma claimed_zzz: "claimedScore ''zzz '' storeTool = 0" "claimedScore ''zzz '' petTool = 0"
  unfolding claimedScore_def lower_zzz split_zzz Let_def searchFields_claimed [symmetric]
  by (simp_all add: searchFields_store searchFields_pet)

lemma score_zzz: "toolScore ''zzz '' storeTool = 30" "toolScore ''zzz '' petTool = 30"
  "toolScore ''zzz'' storeTool = 0" "toolScore ''zzz'' petTool = 0"
  by (simp_all add: toolScore_def fieldScore_def searchFields_store searchFields_pet isSpace_def)

lemma search_zzz: "searchEndpoints [storeTool, petTool] ''zzz '' None = [storeTool, petTool]"
  "searchEndpoints [storeTool, petTool] ''zzz'' None = []"
  by (simp_all add: searchEndpoints_def effectiveLimit_def optField_def filterByTags_def
      filterByMethods_def scoreTool_toolScore lower_zzz score_zzz sliceTo_def sortBy_def)

text \<open>
  C7. The code scores the pieces of \<open>queryLower.split(/\s+/)\<close>, and a query that ends with
  white space leaves an empty piece, which every field contains. The query \<open>zzz\<close> followed
  by a space has the one word \<open>zzz\<close>, which no field of the two example tools contains: by
  the rule of the specification both tools score zero and are dropped. The code scores each
  of them 30, 5 for each of its six fields, and returns both; without the space it returns
  none.
\<close>

theorem searchEndpoints_trailing_space:
  "splitWhitespace (toLowerCase ''zzz '') = [''zzz'', []]
   \<and> queryWords (toLowerCase ''zzz '') = [''zzz'']
   \<and> list_all (\<lambda>field. \<not> includesStr field ''zzz'')
        (claimedFields storeTool @ claimedFields petTool)
   \<and> claimedScore ''zzz '' storeTool = 0
   \<and> claimedScore ''zzz '' petTool = 0
   \<and> scoreTool (toLowerCase ''zzz '') storeTool = (storeTool, 30)
   \<and> scoreTool (toLowerCase ''zzz '') petTool = (petTool, 30)
   \<and> searchEndpoints [storeTool, petTool] ''zzz '' None = [storeTool, petTool]
   \<and> searchEndpoints [storeTool, petTool] ''zzz'' None = []"
proof -
  have "list_all (\<lambda>field. \<not> includesStr field ''zzz'')
          (claimedFields storeTool @ claimedFields petTool)"
    unfolding searchFields_claimed [symmetric]
    by (simp add: searchFields_store searchFields_pet)
  then show ?thesis
    unfolding lower_zzz split_zzz
    by (simp add: claimed_zzz scoreTool_toolScore score_zzz search_zzz)
qed

lemma length_sliceTo_ten: "length (sliceTo 10 xs) = min 10 (length xs)"
  by (simp add: sliceTo_def)


text \<open>
  C9. A supplied limit of 0 is replaced by 10, as an absent limit is: the search with limit 0
  returns what the search without a limit and the search with limit 10 return, namely the
  first 10 of the candidates with a positive score, or all of them when there are fewer. So
  the two example tools, both matching \<open>pet\<close>, are both returned under limit 0.
\<close>

theorem searchEndpoints_limit_zero:
  "effectiveLimit (Some (opts\<lparr>so_limit := Some 0\<rparr>)) = 10
   \<and> searchEndpoints tools query (Some (opts\<lparr>so_limit := Some 0\<rparr>))
       = searchEndpoints tools query (Some (opts\<lparr>so_limit := None\<rparr>))
   \<and> searchEndpoints tools query (Some (opts\<lparr>so_limit := Some 0\<rparr>))
       = searchEndpoints tools query (Some (opts\<lparr>so_limit := Some 10\<rparr>))
   \<and> length (searchEndpoints tools query (Some (opts\<lparr>so_limit := Some 0\<rparr>)))
       = min 10 (length (filter (\<lambda>t. 0 < toolScore (toLowerCase query) t)
                           (candidates tools (Some opts))))
   \<and> searchEndpoints [storeTool, petTool] ''pet''
        (Some \<lparr>so_tags = None, so_methods = None, so_limit = Some 0\<rparr>) = [petTool, storeTool]"
proof -
  let ?o = "Some (opts\<lparr>so_limit := Some 0\<rparr>)"
  have e: "effectiveLimit ?o = 10"
    by (simp add: effectiveLimit_def optField_def)
  have c: "candidates tools ?o = candidates tools (Some opts)"
    by (simp add: candidates_def optField_def)
  have n: "searchEndpoints tools query ?o = searchEndpoints tools query (Some (opts\<lparr>so_limit := None\<rparr>))"
    by (simp add: searchEndpoints_def effectiveLimit_def optField_def)
  have t: "searchEndpoints tools query ?o = searchEndpoints tools query (Some (opts\<lparr>so_limit := Some 10\<rparr>))"
    by (simp add: searchEndpoints_def effectiveLimit_def optField_def)
  let ?scored = "filter (\<lambda>s. 0 < snd s)
             (map (\<lambda>t. (t, toolScore (toLowerCase query) t)) (candidates tools ?o))"
  have "length (sortBy (\<lambda>a b. snd b - snd a) ?scored) = length ?scored"
    using sortBy_mset [of ?scored] by (rule mset_eq_length)
  also have "length ?scored
      = length (filter (\<lambda>t. 0 < toolScore (toLowerCase query) t) (candidates tools ?o))"
    by (simp add: filter_map comp_def)
  finally have "length (searchEndpoints tools query ?o)
       = min 10 (length (filter (\<lambda>t. 0 < toolScore (toLowerCase query) t)
                           (candidates tools (Some opts))))"
    unfolding ranked_properties(1) e by (simp add: length_sliceTo_ten c)
  then show ?thesis
    using e n t search_pet_limit_zero by simp
qed

theorem searchEndpoints_limit_zero_witness:
  "searchEndpoints [storeTool, petTool] ''pet''
     (Some \<lparr>so_tags = None, so_methods = None, so_limit = Some 0\<rparr>)
   = searchEndpoints [storeTool, petTool] ''pet''
       (Some \<lparr>so_tags = None, so_methods = None, so_limit = None\<rparr>)
   \<and> searchEndpoints [storeTool, petTool] ''pet''
       (Some \<lparr>so_tags = None, so_methods = None, so_limit = Some 0\<rparr>) = [petTool, storeTool]"
  using searchEndpoints_limit_zero
    [of "\<lparr>so_tags = None, so_methods = None, so_limit = Some 5\<rparr>" "[storeTool, petTool]" "''pet''"]
  by auto

section \<open>The summary by tag\<close>

lemma sum_bounded_by_length:
  "(\<forall>x\<in>set xs. f x \<le> (1::nat)) \<Longrightarrow> sum_list (map f xs) \<le> length xs"
  by (induction xs) auto

lemma sum_below_length:
  "(\<forall>x\<in>set xs. f x \<le> (1::nat)) \<Longrightarrow> (\<exists>x\<in>set xs. f x = 0) \<Longrightarrow> sum_list (map f xs) < length xs"
proof (induction xs)
  case Nil
  then show ?case by simp
next
  case (Cons a xs)
  show ?case
  proof (cases "f a = 0")
    case True
    from Cons.prems(1) have "sum_list (map f xs) \<le> length xs"
      by (intro sum_bounded_by_length) simp
    with True show ?thesis by simp
  next
    case False
    with Cons.prems have "sum_list (map f xs) < length xs"
      by (intro Cons.IH) auto
    moreover from Cons.prems(1) have "f a \<le> 1" by simp
    ultimately show ?thesis by simp
  qed
qed

lemma summary_untagged: "getToolsSummary [petTool, untaggedTool]
   = \<lparr>sm_total = 2, sm_byMethod = [(''GET'', Count 2)], sm_byTag = [(''pet'', Count 1)]\<rparr>"
  by (simp add: getToolsSummary_def increment_def setProp_def objectPrototypeKeys_def petTool_def
      petEndpoint_def untaggedTool_def blankEndpoint_def char_defs)

lemma summary_two_tags: "getToolsSummary [twoTagTool, untaggedTool]
   = \<lparr>sm_total = 2, sm_byMethod = [(''GET'', Count 2)],
      sm_byTag = [(''pet'', Count 1), (''store'', Count 1)]\<rparr>"
  by (simp add: getToolsSummary_def increment_def setProp_def objectPrototypeKeys_def
      twoTagTool_def untaggedTool_def blankEndpoint_def char_defs)

text \<open>
  A tag of the name of an inherited member is not counted: the record holds a text under
  \<open>constructor\<close>.
\<close>

lemma summary_constructor: "getToolsSummary [constructorTool]
   = \<lparr>sm_total = 1, sm_byMethod = [(''GET'', Count 1)],
      sm_byTag = [(''constructor'', Text ''function Object() { [native code] }1'')]\<rparr>"
  by (simp add: getToolsSummary_def increment_def setProp_def objectPrototypeKeys_def
      inheritedText_def constructorTool_def blankEndpoint_def char_defs)

lemma tags_untagged: "ep_tags (t_endpoint untaggedTool) = []"
  by (simp add: untaggedTool_def blankEndpoint_def)

lemma tags_twoTag: "ep_tags (t_endpoint twoTagTool) = [''pet'', ''store'']"
  by (simp add: twoTagTool_def blankEndpoint_def)

text \<open>
  The sum of the counts is not below \<open>total\<close> whenever a tool has no tag: with one tool of
  two tags and one tool without a tag, the counts add up to 2, which is \<open>total\<close>.
\<close>

theorem getToolsSummary_byTag_counterexample:
  "untaggedTool \<in> set [twoTagTool, untaggedTool]
   \<and> ep_tags (t_endpoint untaggedTool) = []
   \<and> sm_byTag (getToolsSummary [twoTagTool, untaggedTool]) = [(''pet'', Count 1), (''store'', Count 1)]
   \<and> sum_list (map (\<lambda>kv. numberOf (snd kv)) (sm_byTag (getToolsSummary [twoTagTool, untaggedTool]))) = 2
   \<and> sm_total (getToolsSummary [twoTagTool, untaggedTool]) = 2
   \<and> \<not> sum_list (map (\<lambda>kv. numberOf (snd kv)) (sm_byTag (getToolsSummary [twoTagTool, untaggedTool])))
        < sm_total (getToolsSummary [twoTagTool, untaggedTool])"
  by (simp add: summary_two_tags tags_untagged numberOf_def)

text \<open>
  C10, as amended. \<open>total\<close> is the number of tools. When no tag is the name of a member of
  \<open>Object.prototype\<close>, the \<open>byTag\<close> record of \<open>getToolsSummary\<close> counts the pairs of a tool
  and one of its tags: its keys are the tags that occur (so \<open>default\<close> is a key only when it
  is a tag of some tool), the value of a key is the number of its occurrences over all
  tools, and the values add up to the number of tag occurrences; that sum is below \<open>total\<close>
  when some tool has no tag and no tool has more than one. \<open>groupToolsByTag\<close> puts every tool
  without a tag in the group \<open>default\<close>, whatever the tags of the other tools are.
\<close>

theorem getToolsSummary_byTag:
  "sm_total (getToolsSummary tools) = length tools
   \<and> ((\<forall>t\<in>set tools. \<forall>tag\<in>set (ep_tags (t_endpoint t)). tag \<notin> set objectPrototypeKeys) \<longrightarrow>
        sum_list (map (\<lambda>kv. numberOf (snd kv)) (sm_byTag (getToolsSummary tools)))
          = sum_list (map (\<lambda>t. length (ep_tags (t_endpoint t))) tools)
      \<and> fst ` set (sm_byTag (getToolsSummary tools)) = (\<Union>t\<in>set tools. set (ep_tags (t_endpoint t)))
      \<and> (\<forall>k. map_of (sm_byTag (getToolsSummary tools)) k
               = (if k \<in> (\<Union>t\<in>set tools. set (ep_tags (t_endpoint t)))
                  then Some (Count (sum_list (map (\<lambda>t. count_list (ep_tags (t_endpoint t)) k) tools)))
                  else None))
      \<and> ((\<forall>t\<in>set tools. length (ep_tags (t_endpoint t)) \<le> 1)
           \<and> (\<exists>t\<in>set tools. ep_tags (t_endpoint t) = [])
         \<longrightarrow> sum_list (map (\<lambda>kv. numberOf (snd kv)) (sm_byTag (getToolsSummary tools)))
               < sm_total (getToolsSummary tools)))
   \<and> (\<forall>t\<in>set tools. ep_tags (t_endpoint t) = []
        \<longrightarrow> inGroup (groupToolsByTag tools) ''default'' t)"
proof -
  obtain bm bt where loop: "summaryLoop tools ([], []) = (bm, bt)"
    by (cases "summaryLoop tools ([], [])")
  then have s: "getToolsSummary tools = \<lparr>sm_total = length tools, sm_byMethod = bm, sm_byTag = bt\<rparr>"
    by (simp add: getToolsSummary_def)
  have counted:
    "sum_list (map (\<lambda>kv. numberOf (snd kv)) bt) = sum_list (map (\<lambda>t. length (ep_tags (t_endpoint t))) tools)
     \<and> fst ` set bt = (\<Union>t\<in>set tools. set (ep_tags (t_endpoint t)))
     \<and> (\<forall>k. map_of bt k
              = (if k \<in> (\<Union>t\<in>set tools. set (ep_tags (t_endpoint t)))
                 then Some (Count (sum_list (map (\<lambda>t. count_list (ep_tags (t_endpoint t)) k) tools)))
                 else None))
     \<and> ((\<forall>t\<in>set tools. length (ep_tags (t_endpoint t)) \<le> 1)
          \<and> (\<exists>t\<in>set tools. ep_tags (t_endpoint t) = [])
        \<longrightarrow> sum_list (map (\<lambda>kv. numberOf (snd kv)) bt) < length tools)"
    if plain: "\<forall>t\<in>set tools. \<forall>tag\<in>set (ep_tags (t_endpoint t)). tag \<notin> set objectPrototypeKeys"
  proof -
    have "allCounts []" by (simp add: allCounts_def)
    from summaryLoop_tags [OF loop plain this]
    have counts: "allCounts bt"
      and sum: "sum_list (map (\<lambda>kv. numberOf (snd kv)) bt)
                  = sum_list (map (\<lambda>t. length (ep_tags (t_endpoint t))) tools)"
      and keys: "fst ` set bt = (\<Union>t\<in>set tools. set (ep_tags (t_endpoint t)))"
      and cnt: "\<And>k. countOf bt k = sum_list (map (\<lambda>t. count_list (ep_tags (t_endpoint t)) k) tools)"
      by (auto simp: countOf_def)
    have look: "map_of bt k
              = (if k \<in> (\<Union>t\<in>set tools. set (ep_tags (t_endpoint t)))
                 then Some (Count (sum_list (map (\<lambda>t. count_list (ep_tags (t_endpoint t)) k) tools)))
                 else None)" for k
    proof (cases "map_of bt k")
      case None
      then have "k \<notin> fst ` set bt" by (simp add: map_of_eq_None_iff)
      with None keys show ?thesis by simp
    next
      case (Some v)
      then have "k \<in> fst ` set bt" by (metis domI dom_map_of_conv_image_fst)
      moreover from allCounts_lookup [OF counts Some] obtain n where v: "v = Count n" by blast
      moreover from cnt [of k] Some v
      have "n = sum_list (map (\<lambda>t. count_list (ep_tags (t_endpoint t)) k) tools)"
        by (simp add: countOf_def numberOf_def)
      ultimately show ?thesis using Some keys by simp
    qed
    have less: "sum_list (map (\<lambda>kv. numberOf (snd kv)) bt) < length tools"
      if "\<forall>t\<in>set tools. length (ep_tags (t_endpoint t)) \<le> 1"
        and "\<exists>t\<in>set tools. ep_tags (t_endpoint t) = []"
      unfolding sum using that by (intro sum_below_length) auto
    show ?thesis
      apply (intro conjI allI impI)
      subgoal by (rule sum)
      subgoal by (rule keys)
      subgoal for k by (rule look)
      subgoal using less by simp
      done
  qed
  have dflt: "inGroup (groupToolsByTag tools) ''default'' t"
    if "t \<in> set tools" and "ep_tags (t_endpoint t) = []" for t
    unfolding groupToolsByTag_def using that by (rule groupToolsLoop_default)
  show ?thesis
    unfolding s
    apply (intro conjI impI ballI)
    subgoal by simp
    subgoal using counted by simp
    subgoal using counted by simp
    subgoal using counted by simp
    subgoal using counted by simp
    subgoal for t using dflt [of t] by simp
    done
qed

theorem getToolsSummary_byTag_witness:
  "ep_tags (t_endpoint petTool) = [''pet'']
   \<and> ''pet'' \<notin> set objectPrototypeKeys
   \<and> ep_tags (t_endpoint untaggedTool) = []
   \<and> sm_byTag (getToolsSummary [petTool, untaggedTool]) = [(''pet'', Count 1)]
   \<and> map_of (sm_byTag (getToolsSummary [petTool, untaggedTool])) ''pet'' = Some (Count 1)
   \<and> sum_list (map (\<lambda>kv. numberOf (snd kv)) (sm_byTag (getToolsSummary [petTool, untaggedTool])))
       < sm_total (getToolsSummary [petTool, untaggedTool])
   \<and> inGroup (groupToolsByTag [petTool, untaggedTool]) ''default'' untaggedTool"
proof -
  have plain: "\<forall>t\<in>set [petTool, untaggedTool]. \<forall>tag\<in>set (ep_tags (t_endpoint t)).
                 tag \<notin> set objectPrototypeKeys"
    by (simp add: tags_pet tags_untagged objectPrototypeKeys_def)
  have a: "\<forall>t\<in>set [petTool, untaggedTool]. length (ep_tags (t_endpoint t)) \<le> 1"
    by (simp add: tags_pet tags_untagged)
  have b: "\<exists>t\<in>set [petTool, untaggedTool]. ep_tags (t_endpoint t) = []"
    by (simp add: tags_untagged)
  have c: "untaggedTool \<in> set [petTool, untaggedTool]"
    by simp
  note th = getToolsSummary_byTag [of "[petTool, untaggedTool]"]
  from th plain a b
  have d: "sum_list (map (\<lambda>kv. numberOf (snd kv)) (sm_byTag (getToolsSummary [petTool, untaggedTool])))
       < sm_total (getToolsSummary [petTool, untaggedTool])"
    by blast
  from th plain
  have "map_of (sm_byTag (getToolsSummary [petTool, untaggedTool])) ''pet''
          = (if ''pet'' \<in> (\<Union>t\<in>set [petTool, untaggedTool]. set (ep_tags (t_endpoint t)))
             then Some (Count (sum_list (map (\<lambda>t. count_list (ep_tags (t_endpoint t)) ''pet'')
                                          [petTool, untaggedTool])))
             else None)"
    by blast
  then have l: "map_of (sm_byTag (getToolsSummary [petTool, untaggedTool])) ''pet'' = Some (Count 1)"
    by (simp add: tags_pet tags_untagged)
  from th c tags_untagged
  have e: "inGroup (groupToolsByTag [petTool, untaggedTool]) ''default'' untaggedTool"
    by blast
  have f: "sm_byTag (getToolsSummary [petTool, untaggedTool]) = [(''pet'', Count 1)]"
    by (simp add: summary_untagged)
  have g: "''pet'' \<notin> set objectPrototypeKeys"
    by (simp add: objectPrototypeKeys_def)
  from tags_pet g tags_untagged f l d e show ?thesis by (intro conjI)
qed

section \<open>Properties of the request body\<close>






section \<open>Properties of the call handler of the full mode\<close>

text \<open>
  C1, as amended. In the full mode, a call that names a tool which is not in the tool list
  makes the handler throw \<open>Error("Unknown tool: <name>")\<close>: the handler returns no result,
  and what it throws reaches the protocol layer. A call that names a tool of the list always
  returns a result, flagged as an error exactly when the API call threw, and then carrying
  \<open>Error: \<close> followed by the message of what was thrown.
\<close>

theorem callToolFull_unknown_tool:
  "(toolName \<notin> t_name ` set tools \<longrightarrow>
      callToolFull pf baseUrl tools toolName arguments = Inl (Error (''Unknown tool: '' @ toolName)))
   \<and> (toolName \<in> t_name ` set tools \<longrightarrow>
        (\<exists>tool result.
            find (\<lambda>t. t_name t = toolName) tools = Some tool
          \<and> callToolFull pf baseUrl tools toolName arguments = Inr result
          \<and> cr_isError result
              = isl (executeApiCall pf baseUrl (t_endpoint tool)
                       (case arguments of None \<Rightarrow> [] | Some a \<Rightarrow> a))
          \<and> (\<forall>e. executeApiCall pf baseUrl (t_endpoint tool)
                    (case arguments of None \<Rightarrow> [] | Some a \<Rightarrow> a) = Inl e
                 \<longrightarrow> cr_text result = ''Error: '' @ errorMessage e)))"
proof -
  have unknown: "callToolFull pf baseUrl tools toolName arguments
        = Inl (Error (''Unknown tool: '' @ toolName))"
    if "toolName \<notin> t_name ` set tools"
  proof -
    from that have "find (\<lambda>t. t_name t = toolName) tools = None"
      by (auto simp: find_None_iff)
    then show ?thesis by (simp add: callToolFull_def)
  qed
  have known: "\<exists>tool result.
            find (\<lambda>t. t_name t = toolName) tools = Some tool
          \<and> callToolFull pf baseUrl tools toolName arguments = Inr result
          \<and> cr_isError result
              = isl (executeApiCall pf baseUrl (t_endpoint tool)
                       (case arguments of None \<Rightarrow> [] | Some a \<Rightarrow> a))
          \<and> (\<forall>e. executeApiCall pf baseUrl (t_endpoint tool)
                    (case arguments of None \<Rightarrow> [] | Some a \<Rightarrow> a) = Inl e
                 \<longrightarrow> cr_text result = ''Error: '' @ errorMessage e)"
    if "toolName \<in> t_name ` set tools"
  proof -
    from that have "find (\<lambda>t. t_name t = toolName) tools \<noteq> None"
      by (auto simp: find_None_iff)
    then obtain tool where f: "find (\<lambda>t. t_name t = toolName) tools = Some tool" by auto
    show ?thesis
      by (cases "executeApiCall pf baseUrl (t_endpoint tool)
                       (case arguments of None \<Rightarrow> [] | Some a \<Rightarrow> a)")
         (simp_all add: callToolFull_def f)
  qed
  from unknown known show ?thesis by blast
qed

lemma petTool_name: "t_name petTool = ''get_pet_by_id''"
  by (simp add: petTool_def)

lemma offline_call:
  "executeApiCall offlinePlatform baseUrl endpoint args = Inl (Error ''fetch failed'')"
  by (simp add: executeApiCall_def readResponse_def offlinePlatform_def)

text \<open>With the one tool \<open>get_pet_by_id\<close>, the call of \<open>nope\<close> throws and returns no result.\<close>

theorem callToolFull_unknown_tool_counterexample:
  "''nope'' \<notin> t_name ` set [petTool]
   \<and> callToolFull offlinePlatform ''https://x'' [petTool] ''nope'' None
       = Inl (Error ''Unknown tool: nope'')"
  by (simp add: callToolFull_def petTool_name)

theorem callToolFull_unknown_tool_witness:
  "''list_pets'' \<notin> t_name ` set [petTool]
   \<and> callToolFull offlinePlatform ''https://x'' [petTool] ''list_pets'' (Some [])
       = Inl (Error ''Unknown tool: list_pets'')
   \<and> ''get_pet_by_id'' \<in> t_name ` set [petTool]
   \<and> callToolFull offlinePlatform ''https://x'' [petTool] ''get_pet_by_id'' (Some [(''petId'', JNum 7)])
       = Inr \<lparr>cr_text = ''Error: fetch failed'', cr_isError = True\<rparr>"
proof -
  have a: "''list_pets'' \<notin> t_name ` set [petTool]"
    by (simp add: petTool_name)
  have b: "''get_pet_by_id'' \<in> t_name ` set [petTool]"
    by (simp add: petTool_name)
  from callToolFull_unknown_tool [of "''list_pets''" "[petTool]" offlinePlatform "''https://x''" "Some []"] a
  have c: "callToolFull offlinePlatform ''https://x'' [petTool] ''list_pets'' (Some [])
       = Inl (Error ''Unknown tool: list_pets'')"
    by simp
  from callToolFull_unknown_tool [of "''get_pet_by_id''" "[petTool]" offlinePlatform "''https://x''"
      "Some [(''petId'', JNum 7)]", THEN conjunct2, THEN mp, OF b]
  obtain tool result where
    f: "find (\<lambda>t. t_name t = ''get_pet_by_id'') [petTool] = Some tool" and
    r: "callToolFull offlinePlatform ''https://x'' [petTool] ''get_pet_by_id'' (Some [(''petId'', JNum 7)])
          = Inr result"
    and e: "cr_isError result = isl (executeApiCall offlinePlatform ''https://x'' (t_endpoint tool)
                       (case Some [(''petId'', JNum 7)] of None \<Rightarrow> [] | Some a \<Rightarrow> a))"
    and t: "\<forall>e. executeApiCall offlinePlatform ''https://x'' (t_endpoint tool)
                    (case Some [(''petId'', JNum 7)] of None \<Rightarrow> [] | Some a \<Rightarrow> a) = Inl e
                 \<longrightarrow> cr_text result = ''Error: '' @ errorMessage e"
    by (elim exE conjE) (rule that, assumption+)
  from e t have "cr_isError result" and "cr_text result = ''Error: fetch failed''"
    by (simp_all add: offline_call errorMessage_def)
  then have "result = \<lparr>cr_text = ''Error: fetch failed'', cr_isError = True\<rparr>"
    by (cases result) simp
  with r a b c show ?thesis by simp
qed

section \<open>Properties of the token exchange\<close>

text \<open>
  C8. \<open>getOAuth2Token\<close> never throws. It returns \<open>null\<close> when the token URL, the client id or
  the client secret is missing (or the type is not \<open>oauth2\<close>), and whenever the exchange
  throws: when \<open>fetch\<close> throws, when the status is not a success (the exchange then throws
  \<open>OAuth2 token request failed: <status text>\<close>, which the \<open>catch\<close> swallows), and when the
  body is not JSON. When the exchange succeeds with a JSON object, it returns the object's
  \<open>access_token\<close>.
\<close>

theorem getOAuth2Token_never_throws:
  "(\<exists>v. getOAuth2Token pf auth = Inr v)
   \<and> (\<not> truthyStr (au_tokenUrl auth) \<or> \<not> truthyStr (au_clientId auth)
        \<or> \<not> truthyStr (au_clientSecret auth) \<or> au_type auth \<noteq> ''oauth2''
      \<longrightarrow> getOAuth2Token pf auth = Inr JNull)
   \<and> ((\<exists>e. tokenExchange pf auth = Inl e) \<longrightarrow> getOAuth2Token pf auth = Inr JNull)
   \<and> (\<forall>e. pf_fetch pf (tokenRequest pf auth) = FetchThrows e
         \<longrightarrow> getOAuth2Token pf auth = Inr JNull)
   \<and> (\<forall>r. pf_fetch pf (tokenRequest pf auth) = FetchResponse r \<and> \<not> resp_ok r
         \<longrightarrow> tokenExchange pf auth = Inl (Error (''OAuth2 token request failed: '' @ resp_statusText r))
             \<and> getOAuth2Token pf auth = Inr JNull)
   \<and> (\<forall>r e. pf_fetch pf (tokenRequest pf auth) = FetchResponse r \<and> resp_ok r \<and> resp_json r = Inl e
         \<longrightarrow> getOAuth2Token pf auth = Inr JNull)
   \<and> (\<forall>r data. au_type auth = ''oauth2'' \<and> truthyStr (au_tokenUrl auth)
          \<and> truthyStr (au_clientId auth) \<and> truthyStr (au_clientSecret auth)
          \<and> pf_fetch pf (tokenRequest pf auth) = FetchResponse r \<and> resp_ok r
          \<and> resp_json r = Inr (JObj data)
         \<longrightarrow> getOAuth2Token pf auth = Inr (getProp data ''access_token''))"
proof -
  have total: "\<exists>v. getOAuth2Token pf auth = Inr v"
    by (simp add: getOAuth2Token_def split: sum.splits)
  have missing: "\<not> truthyStr (au_tokenUrl auth) \<or> \<not> truthyStr (au_clientId auth)
        \<or> \<not> truthyStr (au_clientSecret auth) \<or> au_type auth \<noteq> ''oauth2''
      \<longrightarrow> getOAuth2Token pf auth = Inr JNull"
    by (auto simp: getOAuth2Token_def)
  have failed: "getOAuth2Token pf auth = Inr JNull" if "tokenExchange pf auth = Inl e" for e
    using that by (simp add: getOAuth2Token_def)
  have threw: "tokenExchange pf auth = Inl e"
    if "pf_fetch pf (tokenRequest pf auth) = FetchThrows e" for e
    using that by (simp add: tokenExchange_def)
  have status: "tokenExchange pf auth = Inl (Error (''OAuth2 token request failed: '' @ resp_statusText r))"
    if "pf_fetch pf (tokenRequest pf auth) = FetchResponse r" and "\<not> resp_ok r" for r
    using that by (simp add: tokenExchange_def)
  have parse: "tokenExchange pf auth = Inl e"
    if "pf_fetch pf (tokenRequest pf auth) = FetchResponse r" and "resp_ok r" and "resp_json r = Inl e"
    for r e
    using that by (simp add: tokenExchange_def)
  have success: "getOAuth2Token pf auth = Inr (getProp data ''access_token'')"
    if "au_type auth = ''oauth2''" and "truthyStr (au_tokenUrl auth)"
      and "truthyStr (au_clientId auth)" and "truthyStr (au_clientSecret auth)"
      and "pf_fetch pf (tokenRequest pf auth) = FetchResponse r" and "resp_ok r"
      and "resp_json r = Inr (JObj data)" for r data
    using that by (simp add: getOAuth2Token_def tokenExchange_def readProperty_def)
  show ?thesis
    using total missing failed threw status parse success by blast
qed

lemma oauthConfig_complete:
  "au_type oauthConfig = ''oauth2'' \<and> truthyStr (au_tokenUrl oauthConfig)
   \<and> truthyStr (au_clientId oauthConfig) \<and> truthyStr (au_clientSecret oauthConfig)"
  by (simp add: oauthConfig_def truthyStr_def)

theorem getOAuth2Token_never_throws_witness:
  "au_type oauthConfig = ''oauth2'' \<and> truthyStr (au_tokenUrl oauthConfig)
   \<and> truthyStr (au_clientId oauthConfig) \<and> truthyStr (au_clientSecret oauthConfig)
   \<and> getOAuth2Token (answering tokenResponse) oauthConfig = Inr (JStr ''abc'')
   \<and> getOAuth2Token (answering deniedResponse) oauthConfig = Inr JNull
   \<and> tokenExchange (answering deniedResponse) oauthConfig
       = Inl (Error ''OAuth2 token request failed: Unauthorized'')
   \<and> getOAuth2Token (answering garbledResponse) oauthConfig = Inr JNull
   \<and> getOAuth2Token offlinePlatform oauthConfig = Inr JNull
   \<and> \<not> truthyStr (au_clientSecret (oauthConfig\<lparr>au_clientSecret := None\<rparr>))
   \<and> getOAuth2Token (answering tokenResponse) (oauthConfig\<lparr>au_clientSecret := None\<rparr>) = Inr JNull"
proof -
  have f1: "pf_fetch (answering tokenResponse) (tokenRequest (answering tokenResponse) oauthConfig)
              = FetchResponse tokenResponse"
    by (simp add: answering_def)
  have ok: "resp_ok tokenResponse"
    and js: "resp_json tokenResponse
               = Inr (JObj [(''access_token'', JStr ''abc''), (''expires_in'', JNum 3600)])"
    by (simp_all add: tokenResponse_def)
  from getOAuth2Token_never_throws [of "answering tokenResponse" oauthConfig]
    oauthConfig_complete f1 ok js
  have "getOAuth2Token (answering tokenResponse) oauthConfig
          = Inr (getProp [(''access_token'', JStr ''abc''), (''expires_in'', JNum 3600)] ''access_token'')"
    by blast
  then have a: "getOAuth2Token (answering tokenResponse) oauthConfig = Inr (JStr ''abc'')"
    by (simp add: getProp_def)
  have f2: "pf_fetch (answering deniedResponse) (tokenRequest (answering deniedResponse) oauthConfig)
              = FetchResponse deniedResponse"
    by (simp add: answering_def)
  have nok: "\<not> resp_ok deniedResponse"
    by (simp add: deniedResponse_def)
  from getOAuth2Token_never_throws [of "answering deniedResponse" oauthConfig] f2 nok
  have b: "getOAuth2Token (answering deniedResponse) oauthConfig = Inr JNull"
    and b': "tokenExchange (answering deniedResponse) oauthConfig
       = Inl (Error (''OAuth2 token request failed: '' @ resp_statusText deniedResponse))"
    by blast+
  from b' have b'': "tokenExchange (answering deniedResponse) oauthConfig
       = Inl (Error ''OAuth2 token request failed: Unauthorized'')"
    by (simp add: deniedResponse_def)
  have f4: "pf_fetch (answering garbledResponse) (tokenRequest (answering garbledResponse) oauthConfig)
              = FetchResponse garbledResponse"
    by (simp add: answering_def)
  have gok: "resp_ok garbledResponse"
    and gjs: "resp_json garbledResponse = Inl (Error ''Unexpected token < in JSON'')"
    by (simp_all add: garbledResponse_def)
  from getOAuth2Token_never_throws [of "answering garbledResponse" oauthConfig] f4 gok gjs
  have g: "getOAuth2Token (answering garbledResponse) oauthConfig = Inr JNull"
    by blast
  have f3: "pf_fetch offlinePlatform (tokenRequest offlinePlatform oauthConfig)
              = FetchThrows (Error ''fetch failed'')"
    by (simp add: offlinePlatform_def)
  from getOAuth2Token_never_throws [of offlinePlatform oauthConfig] f3
  have c: "getOAuth2Token offlinePlatform oauthConfig = Inr JNull"
    by blast
  have m: "\<not> truthyStr (au_clientSecret (oauthConfig\<lparr>au_clientSecret := None\<rparr>))"
    by (simp add: truthyStr_def)
  from getOAuth2Token_never_throws [of "answering tokenResponse" "oauthConfig\<lparr>au_clientSecret := None\<rparr>"] m
  have d: "getOAuth2Token (answering tokenResponse) (oauthConfig\<lparr>au_clientSecret := None\<rparr>) = Inr JNull"
    by blast
  from oauthConfig_complete a b b'' g c m d show ?thesis by simp
qed

end
